theory Spec2Isabelle
  imports Main
begin

section \<open>Shallow embedding of the uiCA pipeline simulator (uiCA.py)\<close>

text \<open>
  The simulator is a single Python file. Cycles and the global \<open>clock\<close> are Python
  integers and are modelled as \<open>int\<close>. Python objects that the simulator links by
  reference (a renamed operand's producing uop, a uop's store-buffer entry) are modelled
  by the value the referenced object has at the moment of the call. An exception raised
  by the Python code is a value of \<open>py_error\<close> on the left of a sum.
\<close>

datatype py_error =
  TypeError | AttributeError | IndexError | KeyError | ZeroDivisionError | ValueError
  | UnboundLocalError

subsection \<open>Store buffer entries, uops and renamed operands\<close>

text \<open>
  \<open>operand_ref\<close> is the identity of a non-renamed operand object (\<open>RegOperand\<close>,
  \<open>FlagOperand\<close>, \<open>MemOperand\<close>, \<open>PseudoOperand\<close>): the latency dictionary of a
  uop is keyed by operand objects, which Python hashes by identity.
\<close>

type_synonym operand_ref = nat

text \<open>
  \<open>class StoreBufferEntry\<close>: \<open>abstractAddress\<close> is the fingerprint
  \<open>(base, index, scale, disp)\<close> or \<open>None\<close>. The list of writing uops (a back
  reference) is not part of the model.
\<close>

record StoreBufferEntry =
  abstractAddress :: "(int \<times> int \<times> int \<times> int) option"
  addressReadyCycle :: "int option"
  dataReadyCycle :: "int option"

text \<open>
  \<open>class Uop\<close>, with the fields of \<open>uop.prop\<close> that the scheduler reads written
  as \<open>prop_...\<close>. \<open>idx\<close> is the global uop index (\<open>next(idx_iter)\<close>), unique per
  uop object.
\<close>

record Uop =
  idx :: nat
  prop_latencies :: "(operand_ref \<times> int) list"
  prop_divCycles :: int
  prop_isLoadUop :: bool
  actualPort :: "string option"
  storeBufferEntry :: "StoreBufferEntry option"
  dispatched :: "int option"

text \<open>\<open>class RenamedOperand\<close>; \<open>ready\<close> is the private memo \<open>__ready\<close>.\<close>

record RenamedOperand =
  nonRenamedOperand :: "operand_ref option"
  uop :: "Uop option"
  ready :: "int option"

text \<open>\<open>self.uop.prop.latencies.get(self.nonRenamedOperand, 1)\<close>\<close>

definition latencies_get :: "(operand_ref \<times> int) list \<Rightarrow> operand_ref option \<Rightarrow> int" where
  "latencies_get lats k =
     (case k of
        None \<Rightarrow> 1
      | Some op \<Rightarrow> (case map_of lats op of None \<Rightarrow> 1 | Some l \<Rightarrow> l))"

text \<open>
  \<open>RenamedOperand.getReadyCycle\<close> (lines 196-217). The result is the returned value
  and the operand after the call (the memo may have been written).
\<close>

definition getReadyCycle :: "RenamedOperand \<Rightarrow> int option \<times> RenamedOperand" where
  "getReadyCycle self =
     (case ready self of
        Some r \<Rightarrow> (Some r, self)
      | None \<Rightarrow>
          (case uop self of
             None \<Rightarrow> (Some (- 1), self\<lparr>ready := Some (- 1)\<rparr>)
           | Some u \<Rightarrow>
               (case dispatched u of
                  None \<Rightarrow> (None, self)
                | Some d \<Rightarrow>
                    (let lat = latencies_get (prop_latencies u) (nonRenamedOperand self) in
                     (case (if prop_isLoadUop u then storeBufferEntry u else None) of
                        Some sb \<Rightarrow>
                          (case (addressReadyCycle sb, dataReadyCycle sb) of
                             (Some a, Some dt) \<Rightarrow>
                               (let memReady = max a dt + 4;
                                    r = max (d + lat) memReady
                                in (Some r, self\<lparr>ready := Some r\<rparr>))
                           | _ \<Rightarrow> (None, self))
                      | None \<Rightarrow>
                          (let r = d + lat in (Some r, self\<lparr>ready := Some r\<rparr>)))))))"

subsection \<open>Scheduler: the cycle in which a uop becomes ready for dispatch\<close>

text \<open>
  The loop of \<open>Scheduler.getReadyForDispatchCycle\<close> (lines 1271-1279) over
  \<open>uop.renamedInputOperands\<close>. Each operand is queried twice, as in the source; a
  second answer \<open>None\<close> would make Python's \<open>max\<close> raise \<open>TypeError\<close>.
\<close>

fun opReadyCycle_loop ::
  "int \<Rightarrow> RenamedOperand list \<Rightarrow> py_error + (int option \<times> RenamedOperand list)" where
  "opReadyCycle_loop opReadyCycle [] = Inr (Some opReadyCycle, [])"
| "opReadyCycle_loop opReadyCycle (renInpOp # rest) =
     (case getReadyCycle renInpOp of
        (None, r1) \<Rightarrow> Inr (None, r1 # rest)
      | (Some _, r1) \<Rightarrow>
          (case getReadyCycle r1 of
             (None, _) \<Rightarrow> Inl TypeError
           | (Some c, r2) \<Rightarrow>
               (case opReadyCycle_loop (max opReadyCycle c) rest of
                  Inl e \<Rightarrow> Inl e
                | Inr (res, rest') \<Rightarrow> Inr (res, r2 # rest'))))"

text \<open>
  \<open>Scheduler.getReadyForDispatchCycle\<close> (lines 1270-1287). \<open>clock\<close> is the global
  clock, \<open>issueDispatchDelay\<close> the field of \<open>uArchConfig\<close>, \<open>issued\<close> the value of
  \<open>uop.fusedUop.issued\<close>, which the front end has set before the scheduler runs.
\<close>

definition getReadyForDispatchCycle ::
  "int \<Rightarrow> int \<Rightarrow> int \<Rightarrow> RenamedOperand list \<Rightarrow> py_error + (int option \<times> RenamedOperand list)" where
  "getReadyForDispatchCycle clock issueDispatchDelay issued renamedInputOperands =
     (case opReadyCycle_loop (- 1) renamedInputOperands of
        Inl e \<Rightarrow> Inl e
      | Inr (None, ops) \<Rightarrow> Inr (None, ops)
      | Inr (Some opReadyCycle, ops) \<Rightarrow>
          (let readyCycle =
                 (if opReadyCycle < issued + issueDispatchDelay
                    then issued + issueDispatchDelay
                  else if opReadyCycle = issued + issueDispatchDelay
                          \<or> opReadyCycle = issued + issueDispatchDelay + 1
                    then opReadyCycle + 1
                  else opReadyCycle)
           in Inr (Some (max (clock + 1) readyCycle), ops)))"

text \<open>
  The formula of the specification for the same cycle, from its words: the maximum of
  \<open>clock + 1\<close>, the maximum input ready cycle \<open>m\<close> and \<open>issued + issueDispatchDelay\<close>,
  one cycle later exactly when \<open>m = issued + issueDispatchDelay\<close>.
\<close>

definition readyForDispatch_claimed :: "int \<Rightarrow> int \<Rightarrow> int \<Rightarrow> int \<Rightarrow> int" where
  "readyForDispatch_claimed clock issueDispatchDelay issued m =
     max (clock + 1) (max m (issued + issueDispatchDelay)
                       + (if m = issued + issueDispatchDelay then 1 else 0))"

text \<open>What the code computes, as a closed formula.\<close>

definition readyForDispatch_formula :: "int \<Rightarrow> int \<Rightarrow> int \<Rightarrow> int \<Rightarrow> int" where
  "readyForDispatch_formula clock issueDispatchDelay issued m =
     max (clock + 1) (max m (issued + issueDispatchDelay)
                       + (if m = issued + issueDispatchDelay
                             \<or> m = issued + issueDispatchDelay + 1 then 1 else 0))"

subsection \<open>Instructions and uop properties\<close>

text \<open>
  \<open>class RegOperand\<close>; a \<open>FlagOperand\<close> is given by its flag group and a
  \<open>MemOperand\<close> by its \<open>MemAddr\<close> (the named tuple of \<open>x64_lib\<close>).
\<close>

record RegOperand =
  reg :: string
  isImplicitStackOperand :: bool

record MemAddr =
  base :: "string option"
  index :: "string option"
  scale :: int
  displacement :: int

text \<open>
  \<open>class UopProperties\<close>. \<open>possiblePorts\<close> is a list of port labels or \<open>None\<close>.
  The back reference \<open>instr\<close>, the operand lists and the latency dictionary are not
  fields of this record: where a function reads them they are given separately.
\<close>

record UopProperties =
  possiblePorts :: "string list option"
  divCycles :: int
  isLoadUop :: bool
  isStoreAddressUop :: bool
  memAddr :: "MemAddr option"
  isStoreDataUop :: bool
  isFirstUopOfInstr :: bool
  isLastUopOfInstr :: bool
  isRegMergeUop :: bool

text \<open>
  \<open>class Instr\<close> with every attribute of \<open>Instr.__init__\<close>. \<open>portData\<close> is the
  dictionary from port combinations (a string of port labels) to uop counts, in
  insertion order; \<open>latencies\<close> is keyed by pairs of operand objects.
  \<open>isUnknownInstr\<close> stands for \<open>isinstance(instr, UnknownInstr)\<close>.
\<close>

record Instr =
  asm :: string
  opcode :: string
  posNominalOpcode :: int
  instrStr :: string
  portData :: "(string \<times> int) list"
  uops :: int
  retireSlots :: int
  uopsMITE :: int
  uopsMS :: int
  instr_divCycles :: int
  inputRegOperands :: "RegOperand list"
  inputFlagOperands :: "string list"
  inputMemOperands :: "MemAddr list"
  outputRegOperands :: "RegOperand list"
  outputFlagOperands :: "string list"
  outputMemOperands :: "MemAddr list"
  memAddrOperands :: "RegOperand list"
  agenOperands :: "MemAddr list"
  latencies :: "((operand_ref \<times> operand_ref) \<times> int) list"
  TP :: "int option"
  immediate :: "int option"
  lcpStall :: bool
  implicitRSPChange :: int
  mayBeEliminated :: bool
  complexDecoder :: bool
  nAvailableSimpleDecoders :: "int option"
  hasLockPrefix :: bool
  isBranchInstr :: bool
  isSerializingInstr :: bool
  isLoadSerializing :: bool
  isStoreSerializing :: bool
  macroFusibleWith :: "string set"
  macroFusedWithPrevInstr :: bool
  macroFusedWithNextInstr :: bool
  UopPropertiesList :: "UopProperties list"
  regMergeUopPropertiesList :: "UopProperties list"
  isFirstInstruction :: bool
  isUnknownInstr :: bool

text \<open>\<open>class UnknownInstr\<close> (lines 156-162): the constructor call with its constants.\<close>

definition UnknownInstr :: "string \<Rightarrow> string \<Rightarrow> int \<Rightarrow> Instr" where
  "UnknownInstr a opc pos =
     \<lparr>asm = a, opcode = opc, posNominalOpcode = pos, instrStr = [], portData = [],
      uops = 0, retireSlots = 1, uopsMITE = 1, uopsMS = 0, instr_divCycles = 0,
      inputRegOperands = [], inputFlagOperands = [], inputMemOperands = [],
      outputRegOperands = [], outputFlagOperands = [], outputMemOperands = [],
      memAddrOperands = [], agenOperands = [], latencies = [], TP = None,
      immediate = Some 0, lcpStall = False, implicitRSPChange = 0, mayBeEliminated = False,
      complexDecoder = False, nAvailableSimpleDecoders = None, hasLockPrefix = False,
      isBranchInstr = False, isSerializingInstr = False, isLoadSerializing = False,
      isStoreSerializing = False, macroFusibleWith = {}, macroFusedWithPrevInstr = False,
      macroFusedWithNextInstr = False, UopPropertiesList = [],
      regMergeUopPropertiesList = [], isFirstInstruction = False, isUnknownInstr = True\<rparr>"

subsection \<open>The microarchitecture configuration\<close>

text \<open>
  \<open>uArchConfig\<close> comes from the module \<open>microArchConfigs\<close>, which is not part of
  the sources at hand; the fields that the modelled functions read are a parameter.
\<close>

record MicroArchConfig =
  IQWidth :: int
  IDQWidth :: int
  RBWidth :: int
  RSWidth :: int
  issueWidth :: int
  retireWidth :: int
  preDecodeWidth :: int
  DSBWidth :: int
  allPorts :: "string list"
  stackSyncUopPorts :: "string list"
  simplePortAssignment :: bool
  LSDEnabled :: bool
  LSDUnrolling :: "int \<Rightarrow> int"

subsection \<open>Uops in the front end and the reorder buffer\<close>

text \<open>
  \<open>class Uop\<close> as the front end, the renamer and the reorder buffer see it:
  \<open>fe_idx\<close> is \<open>uop.idx\<close>, \<open>uop_prop\<close> is \<open>uop.prop\<close>, \<open>instr\<close> is
  \<open>uop.prop.instr\<close>, \<open>instrI_rnd\<close> is \<open>uop.instrI.rnd\<close>,
  \<open>fe_actualPort\<close> is \<open>uop.actualPort\<close>, and \<open>isStackSyncUop\<close> stands for
  \<open>isinstance(uop, StackSyncUop)\<close>.
\<close>

record FEUop =
  fe_idx :: nat
  uop_prop :: UopProperties
  instr :: Instr
  instrI_rnd :: nat
  isStackSyncUop :: bool
  fe_actualPort :: "string option"
  eliminated :: bool
  executed :: "int option"

text \<open>\<open>class FusedUop\<close> and \<open>class LaminatedUop\<close>.\<close>

record FusedUop =
  unfusedUops :: "FEUop list"
  issued :: "int option"
  retired :: "int option"
  retireIdx :: "int option"

record LaminatedUop =
  fusedUops :: "FusedUop list"
  addedToIDQ :: "int option"
  uopSource :: "string option"

text \<open>\<open>LaminatedUop.getUnfusedUops\<close> (lines 93-94)\<close>

definition getUnfusedUops :: "LaminatedUop \<Rightarrow> FEUop list" where
  "getUnfusedUops lamUop = concat (map unfusedUops (fusedUops lamUop))"

subsection \<open>Front end: the stack engine\<close>

text \<open>
  The fields of \<open>class FrontEnd\<close> that \<open>addStackSyncUop\<close> and the tail of
  \<open>FrontEnd.cycle\<close> read and write. \<open>idx_iter\<close> is the value that the next call of
  \<open>next(Uop.idx_iter)\<close> returns.
\<close>

record FrontEnd =
  IDQ :: "LaminatedUop list"
  RSPOffset :: int
  idx_iter :: nat

text \<open>
  \<open>class StackSyncUop\<close> (lines 97-102): a uop of the same instruction on the ports
  \<open>uArchConfig.stackSyncUopPorts\<close>, flagged as first uop of the instruction.
\<close>

definition StackSyncUop :: "MicroArchConfig \<Rightarrow> nat \<Rightarrow> FEUop \<Rightarrow> FEUop" where
  "StackSyncUop cfg i u =
     \<lparr>fe_idx = i,
      uop_prop = \<lparr>possiblePorts = Some (stackSyncUopPorts cfg), divCycles = 0, isLoadUop = False,
              isStoreAddressUop = False, memAddr = None, isStoreDataUop = False,
              isFirstUopOfInstr = True, isLastUopOfInstr = False, isRegMergeUop = False\<rparr>,
      instr = instr u, instrI_rnd = instrI_rnd u, isStackSyncUop = True,
      fe_actualPort = None, eliminated = False, executed = None\<rparr>"

text \<open>
  The two generator expressions of \<open>addStackSyncUop\<close> (lines 705 and 714).
  \<open>getCanonicalReg\<close> is a function of the module \<open>x64_lib\<close>, which is not part of
  the sources at hand, and is a parameter.
\<close>

definition readsRSP :: "(string \<Rightarrow> string) \<Rightarrow> Instr \<Rightarrow> bool" where
  "readsRSP getCanonicalReg i =
     list_ex (\<lambda>op. getCanonicalReg (reg op) = ''RSP'')
       (filter (\<lambda>op. \<not> isImplicitStackOperand op) (inputRegOperands i @ memAddrOperands i))"

definition writesRSP :: "(string \<Rightarrow> string) \<Rightarrow> Instr \<Rightarrow> bool" where
  "writesRSP getCanonicalReg i =
     list_ex (\<lambda>op. getCanonicalReg (reg op) = ''RSP'') (outputRegOperands i)"

text \<open>
  \<open>FrontEnd.addStackSyncUop\<close> (lines 698-723). The stack-sync uop is appended to the
  IDQ as a laminated uop of its own; the copy of it in \<open>instrI.stackSyncUops\<close>, which
  only the report reads, is not modelled.
\<close>

definition addStackSyncUop ::
  "MicroArchConfig \<Rightarrow> (string \<Rightarrow> string) \<Rightarrow> int \<Rightarrow> FrontEnd \<Rightarrow> FEUop \<Rightarrow> FrontEnd" where
  "addStackSyncUop cfg getCanonicalReg clock self u =
     (if \<not> isFirstUopOfInstr (uop_prop u) then self
      else
        (let i = instr u;
             (requiresSyncUop1, offset1) =
                (if RSPOffset self \<noteq> 0 \<and> readsRSP getCanonicalReg i
                 then (True, 0) else (False, RSPOffset self));
             offset2 = offset1 + implicitRSPChange i;
             (requiresSyncUop2, offset3) =
                (if offset2 > 192 then (True, 0) else (requiresSyncUop1, offset2));
             offset4 = (if writesRSP getCanonicalReg i then 0 else offset3)
         in if requiresSyncUop2
            then self\<lparr>IDQ := IDQ self
                          @ [\<lparr>fusedUops = [\<lparr>unfusedUops = [StackSyncUop cfg (idx_iter self) u],
                                            issued = None, retired = None, retireIdx = None\<rparr>],
                              addedToIDQ = Some clock, uopSource = Some ''SE''\<rparr>],
                      RSPOffset := offset4, idx_iter := Suc (idx_iter self)\<rparr>
            else self\<lparr>RSPOffset := offset4\<rparr>))"

text \<open>
  The laminated uop that \<open>addStackSyncUop\<close> appends (lines 718-722), named for the
  statements below.
\<close>

definition syncLamUop :: "MicroArchConfig \<Rightarrow> int \<Rightarrow> FrontEnd \<Rightarrow> FEUop \<Rightarrow> LaminatedUop" where
  "syncLamUop cfg clock self u =
     \<lparr>fusedUops = [\<lparr>unfusedUops = [StackSyncUop cfg (idx_iter self) u],
                     issued = None, retired = None, retireIdx = None\<rparr>],
      addedToIDQ = Some clock, uopSource = Some ''SE''\<rparr>"

subsection \<open>Reorder buffer\<close>

text \<open>
  \<open>class ReorderBuffer\<close>: \<open>rb_uops\<close> is the deque \<open>self.uops\<close>, \<open>retireQueue\<close> the
  deque shared with the main loop.
\<close>

record ReorderBuffer =
  rb_uops :: "FusedUop list"
  retireQueue :: "FusedUop list"

text \<open>\<open>ReorderBuffer.isEmpty\<close> and \<open>ReorderBuffer.isFull\<close> (lines 937-941)\<close>

definition RB_isEmpty :: "ReorderBuffer \<Rightarrow> bool" where
  "RB_isEmpty self = (rb_uops self = [])"

definition RB_isFull :: "MicroArchConfig \<Rightarrow> ReorderBuffer \<Rightarrow> bool" where
  "RB_isFull cfg self = (int (length (rb_uops self)) + issueWidth cfg > RBWidth cfg)"

text \<open>
  The test of line 953: every unfused uop has \<open>executed\<close> set and strictly below the
  clock.
\<close>

definition allExecutedBefore :: "int \<Rightarrow> FusedUop \<Rightarrow> bool" where
  "allExecutedBefore clock fusedUop =
     list_all (\<lambda>u. case executed u of None \<Rightarrow> False | Some e \<Rightarrow> e < clock)
       (unfusedUops fusedUop)"

text \<open>
  \<open>ReorderBuffer.retireUops\<close> (lines 947-960). The first argument of the loop is the
  number of iterations of \<open>range(0, retireWidth)\<close> that are left, the third is
  \<open>nRetiredInSameCycle\<close>.
\<close>

fun retireUops_loop :: "nat \<Rightarrow> int \<Rightarrow> int \<Rightarrow> ReorderBuffer \<Rightarrow> ReorderBuffer" where
  "retireUops_loop 0 clock nRetiredInSameCycle self = self"
| "retireUops_loop (Suc k) clock nRetiredInSameCycle self =
     (case rb_uops self of
        [] \<Rightarrow> self
      | fusedUop # rest \<Rightarrow>
          if allExecutedBefore clock fusedUop
          then retireUops_loop k clock (nRetiredInSameCycle + 1)
                 (self\<lparr>rb_uops := rest,
                       retireQueue := retireQueue self
                          @ [fusedUop\<lparr>retired := Some clock,
                                      retireIdx := Some nRetiredInSameCycle\<rparr>]\<rparr>)
          else self)"

definition retireUops :: "MicroArchConfig \<Rightarrow> int \<Rightarrow> ReorderBuffer \<Rightarrow> ReorderBuffer" where
  "retireUops cfg clock self = retireUops_loop (nat (retireWidth cfg)) clock 0 self"

text \<open>
  \<open>ReorderBuffer.addUops\<close> (lines 962-967); \<open>not uop.prop.possiblePorts\<close> holds for
  \<open>None\<close> and for the empty list.
\<close>

definition noPossiblePorts :: "FEUop \<Rightarrow> bool" where
  "noPossiblePorts u = (case possiblePorts (uop_prop u) of None \<Rightarrow> True | Some ps \<Rightarrow> ps = [])"

definition RB_addUops :: "int \<Rightarrow> ReorderBuffer \<Rightarrow> FusedUop list \<Rightarrow> ReorderBuffer" where
  "RB_addUops clock self newUops =
     self\<lparr>rb_uops := rb_uops self
        @ map (\<lambda>fusedUop. fusedUop\<lparr>unfusedUops :=
                 map (\<lambda>u. if noPossiblePorts u \<or> eliminated u
                           then u\<lparr>executed := Some clock\<rparr> else u)
                     (unfusedUops fusedUop)\<rparr>)
              newUops\<rparr>"

text \<open>\<open>ReorderBuffer.cycle\<close> (lines 943-945)\<close>

definition RB_cycle ::
  "MicroArchConfig \<Rightarrow> int \<Rightarrow> ReorderBuffer \<Rightarrow> FusedUop list \<Rightarrow> ReorderBuffer" where
  "RB_cycle cfg clock self newUops = RB_addUops clock (retireUops cfg clock self) newUops"

text \<open>
  A run of the reorder buffer over several cycles. One cycle is given by the value of
  the clock, the fused uops that the renamer issues in it, and the finish times that
  the scheduler writes in it (\<open>uop.executed = finishTime\<close> in
  \<open>Scheduler.processPendingUops\<close>, which runs after \<open>ReorderBuffer.cycle\<close> in
  \<open>FrontEnd.cycle\<close>), as a map from uop index to cycle. The main loop empties
  \<open>retireQueue\<close> after every cycle; the run collects what it takes out, in order.
\<close>

record RBCycleInput =
  cyc_clock :: int
  cyc_newUops :: "FusedUop list"
  cyc_finished :: "(nat \<times> int) list"

definition setExecuted :: "(nat \<times> int) list \<Rightarrow> FusedUop \<Rightarrow> FusedUop" where
  "setExecuted fin fusedUop =
     fusedUop\<lparr>unfusedUops :=
        map (\<lambda>u. case map_of fin (fe_idx u) of None \<Rightarrow> u | Some e \<Rightarrow> u\<lparr>executed := Some e\<rparr>)
            (unfusedUops fusedUop)\<rparr>"

fun RB_run ::
  "MicroArchConfig \<Rightarrow> RBCycleInput list \<Rightarrow> ReorderBuffer \<Rightarrow> FusedUop list
     \<Rightarrow> ReorderBuffer \<times> FusedUop list" where
  "RB_run cfg [] self retiredSoFar = (self, retiredSoFar)"
| "RB_run cfg (c # cs) self retiredSoFar =
     (let rb1 = RB_cycle cfg (cyc_clock c) self (cyc_newUops c);
          rb2 = rb1\<lparr>rb_uops := map (setExecuted (cyc_finished c)) (rb_uops rb1),
                    retireQueue := []\<rparr>
      in RB_run cfg cs rb2 (retiredSoFar @ retireQueue rb1))"

text \<open>
  The identity of a fused uop is the list of the indices of its unfused uops. The order
  of retirement: the cycle first, \<open>retireIdx\<close> second.
\<close>

definition fusedUopId :: "FusedUop \<Rightarrow> nat list" where
  "fusedUopId fusedUop = map fe_idx (unfusedUops fusedUop)"

definition retiredBefore :: "FusedUop \<Rightarrow> FusedUop \<Rightarrow> bool" where
  "retiredBefore u1 u2 =
     (case (retired u1, retireIdx u1, retired u2, retireIdx u2) of
        (Some r1, Some i1, Some r2, Some i2) \<Rightarrow> r1 < r2 \<or> (r1 = r2 \<and> i1 < i2)
      | _ \<Rightarrow> False)"

text \<open>
  The invariant of the list of retired fused uops that the proofs carry through a run:
  the list is ordered by \<open>retiredBefore\<close>, every entry retired in a cycle up to \<open>lo\<close>
  in which all its unfused uops had executed before, and no cycle retired more than
  \<open>retireWidth\<close> entries.
\<close>

definition retireLogOk :: "MicroArchConfig \<Rightarrow> int \<Rightarrow> FusedUop list \<Rightarrow> bool" where
  "retireLogOk cfg lo retiredLog =
     (sorted_wrt retiredBefore retiredLog
      \<and> (\<forall>f\<in>set retiredLog. \<exists>r i. retired f = Some r \<and> retireIdx f = Some i \<and> r \<le> lo
             \<and> allExecutedBefore r f)
      \<and> (\<forall>c. length (filter (\<lambda>f. retired f = Some c) retiredLog) \<le> nat (retireWidth cfg)))"

subsection \<open>The main loop\<close>

text \<open>
  The state of the loop of \<open>main\<close> (lines 2267-2284): the simulator's objects
  (\<open>frontEnd\<close> with everything it owns), the global \<open>clock\<close> and the variable
  \<open>rnd\<close>.
\<close>

record 's MainLoop =
  ml_sim :: 's
  ml_clock :: int
  ml_rnd :: nat

text \<open>
  The inner loop (lines 2269-2279) empties \<open>retireQueue\<close>; for every fused uop that
  has an unfused uop, \<open>rnd\<close> becomes the round of the first one (the \<open>for\<close> loop
  ends with \<open>break\<close>). The lists \<open>uopsForRound\<close> that the same lines fill are read
  only after the loop and are not modelled.
\<close>

fun drainRetireQueue :: "nat \<Rightarrow> FusedUop list \<Rightarrow> nat" where
  "drainRetireQueue r [] = r"
| "drainRetireQueue r (fusedUop # rq) =
     drainRetireQueue (case unfusedUops fusedUop of [] \<Rightarrow> r | u # _ \<Rightarrow> instrI_rnd u) rq"

text \<open>
  One pass through the loop body up to the test of line 2281. \<open>frontEnd_cycle\<close> stands
  for \<open>frontEnd.cycle()\<close>: from the clock and the simulator's objects it gives the
  objects after the cycle and the content \<open>rq\<close> of \<open>retireQueue\<close>. It is a parameter: the
  statements about the loop hold for every such function.
\<close>

definition mainLoop_body ::
  "(int \<Rightarrow> 's \<Rightarrow> 's \<times> FusedUop list) \<Rightarrow> 's MainLoop \<Rightarrow> 's MainLoop" where
  "mainLoop_body frontEnd_cycle st =
     (case frontEnd_cycle (ml_clock st) (ml_sim st) of
        (sim', rq) \<Rightarrow>
          \<lparr>ml_sim = sim', ml_clock = ml_clock st, ml_rnd = drainRetireQueue (ml_rnd st) rq\<rparr>)"

text \<open>The test of line 2281 and the increment of line 2284.\<close>

definition exitTest :: "'s MainLoop \<Rightarrow> bool" where
  "exitTest st = (ml_rnd st \<ge> 10 \<and> ml_clock st > 500)"

definition tick :: "'s MainLoop \<Rightarrow> 's MainLoop" where
  "tick st = st\<lparr>ml_clock := ml_clock st + 1\<rparr>"

text \<open>
  The loop \<open>while True\<close>. It may run forever: the result is \<open>None\<close> then, and
  otherwise the state in which the loop is left.
\<close>

partial_function (option) mainLoop ::
  "(int \<Rightarrow> 's \<Rightarrow> 's \<times> FusedUop list) \<Rightarrow> 's MainLoop \<Rightarrow> 's MainLoop option" where
  "mainLoop frontEnd_cycle st =
     (let st' = mainLoop_body frontEnd_cycle st
      in if exitTest st' then Some st' else mainLoop frontEnd_cycle (tick st'))"

text \<open>
  \<open>atTest frontEnd_cycle st n\<close> is the state at the test of line 2281 in pass \<open>n\<close>
  (counted from 0) when the loop starts in \<open>st\<close> and no earlier test ended it.
\<close>

primrec atTest ::
  "(int \<Rightarrow> 's \<Rightarrow> 's \<times> FusedUop list) \<Rightarrow> 's MainLoop \<Rightarrow> nat \<Rightarrow> 's MainLoop" where
  "atTest frontEnd_cycle st 0 = mainLoop_body frontEnd_cycle st"
| "atTest frontEnd_cycle st (Suc n) =
     mainLoop_body frontEnd_cycle (tick (atTest frontEnd_cycle st n))"

subsection \<open>Uop properties of an instruction\<close>

text \<open>
  The constructor \<open>UopProperties(instr, possiblePorts, inputOperands, outputOperands,
  latencies, divCycles=0, isLoadUop=False, isStoreAddressUop=False, memAddr=None,
  isStoreDataUop=False, isFirstUopOfInstr=False, isLastUopOfInstr=False,
  isRegMergeUop=False)\<close> for the fields of the record and the keyword arguments that
  \<open>computeUopProperties\<close> passes.
\<close>

definition mkUopProperties ::
  "string list option \<Rightarrow> int \<Rightarrow> bool \<Rightarrow> bool \<Rightarrow> MemAddr option \<Rightarrow> bool \<Rightarrow> UopProperties" where
  "mkUopProperties ports divC isLoad isStoreAddress addr isStoreData =
     \<lparr>possiblePorts = ports, divCycles = divC, isLoadUop = isLoad,
      isStoreAddressUop = isStoreAddress, memAddr = addr, isStoreDataUop = isStoreData,
      isFirstUopOfInstr = False, isLastUopOfInstr = False, isRegMergeUop = False\<rparr>"

text \<open>
  The four lists of port combinations (lines 1346-1359). \<open>list(pc)\<close> turns the key of
  \<open>portData\<close> into the list of its one-character port labels; \<open>[ports]*n\<close> is empty
  for \<open>n \<le> 0\<close>.
\<close>

record PortCombinations =
  loadPcs :: "string list list"
  storeAddressPcs :: "string list list"
  storeDataPcs :: "string list list"
  nonMemPcs :: "string list list"

definition anyIn :: "string list \<Rightarrow> string list \<Rightarrow> bool" where
  "anyIn ps ports = list_ex (\<lambda>p. p \<in> set ports) ps"

fun classifyPorts :: "(string \<times> int) list \<Rightarrow> PortCombinations \<Rightarrow> PortCombinations" where
  "classifyPorts [] pcs = pcs"
| "classifyPorts ((pc, n) # items) pcs =
     (let ports = map (\<lambda>c. [c]) pc
      in classifyPorts items
           (if anyIn [''7'', ''8''] ports
              then pcs\<lparr>storeAddressPcs := storeAddressPcs pcs @ replicate (nat n) ports\<rparr>
            else if anyIn [''2'', ''3''] ports
              then pcs\<lparr>loadPcs := loadPcs pcs @ replicate (nat n) ports\<rparr>
            else if anyIn [''4'', ''9''] ports
              then pcs\<lparr>storeDataPcs := storeDataPcs pcs @ replicate (nat n) ports\<rparr>
            else pcs\<lparr>nonMemPcs := nonMemPcs pcs @ replicate (nat n) ports\<rparr>))"

text \<open>
  The loop of lines 1361-1365: while there are more store-data than store-address
  port combinations, a load combination becomes a store-address combination, or a
  store-data combination is dropped; \<open>pop()\<close> takes the last element.
\<close>

function balanceStores :: "PortCombinations \<Rightarrow> PortCombinations" where
  "balanceStores pcs =
     (if length (storeDataPcs pcs) > length (storeAddressPcs pcs)
      then (if loadPcs pcs \<noteq> []
            then balanceStores
                   (pcs\<lparr>storeAddressPcs := storeAddressPcs pcs @ [last (loadPcs pcs)],
                        loadPcs := butlast (loadPcs pcs)\<rparr>)
            else balanceStores (pcs\<lparr>storeDataPcs := butlast (storeDataPcs pcs)\<rparr>))
      else pcs)"
  by pat_completeness auto
termination
  by (relation "measure (\<lambda>pcs. length (storeDataPcs pcs) - length (storeAddressPcs pcs))") auto

text \<open>
  \<open>operands[min(i, len(operands) - 1)].memAddr\<close> for a non-empty list, \<open>None\<close>
  for an empty one (lines 1383-1385 and 1391-1393).
\<close>

definition memAddrAt :: "MemAddr list \<Rightarrow> nat \<Rightarrow> MemAddr option" where
  "memAddrAt operands i =
     (if operands = [] then None else Some (operands ! min i (length operands - 1)))"

text \<open>The load uops (lines 1375-1387) and the pairs of store uops (lines 1389-1403).\<close>

definition loadUopProps :: "Instr \<Rightarrow> string list list \<Rightarrow> UopProperties list" where
  "loadUopProps i pcs =
     map (\<lambda>(k, pc). mkUopProperties (Some pc) 0 True False (memAddrAt (inputMemOperands i) k) False)
         (enumerate 0 pcs)"

definition storeUopProps ::
  "Instr \<Rightarrow> string list list \<Rightarrow> string list list \<Rightarrow> UopProperties list" where
  "storeUopProps i stAPcs stDPcs =
     concat (map (\<lambda>(k, (stAPc, stDPc)).
                    [mkUopProperties (Some stAPc) 0 False True (memAddrAt (outputMemOperands i) k) False,
                     mkUopProperties (Some stDPc) 0 False False None True])
                 (enumerate 0 (zip stAPcs stDPcs)))"

text \<open>
  What the construction of the uops without memory access (lines 1405-1478) reads from
  the operands and latencies of the instruction, which this model does not compute:
  whether the four conditions of lines 1408-1411 on the latencies hold (part of the
  test for the special case of a shift by CL), and the number of latency classes (the
  keys of \<open>latClasses\<close>, line 1449).
\<close>

record LatencyInfo =
  shiftLikeLatencies :: bool
  nLatClasses :: nat

text \<open>
  The loop of lines 1469-1478 over \<open>nonMemPcs[1:]\<close>: while latency class levels
  remain, the new uop goes to the front of the deque, afterwards to its end.
\<close>

fun nonMemLoop :: "nat \<Rightarrow> string list list \<Rightarrow> UopProperties list \<Rightarrow> UopProperties list" where
  "nonMemLoop remainingLatClassLevels [] nonMemUopProps = nonMemUopProps"
| "nonMemLoop remainingLatClassLevels (pc # pcs) nonMemUopProps =
     (if remainingLatClassLevels > 0
      then nonMemLoop (remainingLatClassLevels - 1) pcs
             (mkUopProperties (Some pc) 0 False False None False # nonMemUopProps)
      else nonMemLoop remainingLatClassLevels pcs
             (nonMemUopProps @ [mkUopProperties (Some pc) 0 False False None False]))"

definition nonMemUopProps :: "LatencyInfo \<Rightarrow> Instr \<Rightarrow> string list list \<Rightarrow> UopProperties list" where
  "nonMemUopProps li i pcs =
     (case pcs of
        [] \<Rightarrow> []
      | pc0 # rest \<Rightarrow>
          if memAddrOperands i = [] \<and> length pcs = 3
             \<and> inputRegOperands i \<noteq> [] \<and> outputRegOperands i \<noteq> []
             \<and> inputFlagOperands i \<noteq> [] \<and> outputFlagOperands i \<noteq> []
             \<and> shiftLikeLatencies li
          then map (\<lambda>pc. mkUopProperties (Some pc) 0 False False None False) pcs
          else nonMemLoop (nLatClasses li - 1) rest
                 [mkUopProperties (Some pc0) (instr_divCycles i) False False None False])"

text \<open>
  The list of line 1481, built from the port data: the load uops, the uops without
  memory access, the store uops.
\<close>

definition portUopProps :: "LatencyInfo \<Rightarrow> Instr \<Rightarrow> UopProperties list" where
  "portUopProps li i =
     (let pcs = balanceStores
                  (classifyPorts (portData i)
                     \<lparr>loadPcs = [], storeAddressPcs = [], storeDataPcs = [], nonMemPcs = []\<rparr>)
      in loadUopProps i (loadPcs pcs) @ nonMemUopProps li i (nonMemPcs pcs)
         @ storeUopProps i (storeAddressPcs pcs) (storeDataPcs pcs))"

text \<open>
  The body of the loop of \<open>computeUopProperties\<close> for one instruction (lines
  1341-1488). \<open>UopPropertiesList[0]\<close> raises \<open>IndexError\<close> on an empty list.
\<close>

definition computeUopProperties_instr :: "LatencyInfo \<Rightarrow> Instr \<Rightarrow> py_error + Instr" where
  "computeUopProperties_instr li i =
     (if macroFusedWithPrevInstr i then Inr i
      else
        (let l0 = portUopProps li i;
             l1 = l0 @ replicate (nat (retireSlots i - int (length l0)))
                         (mkUopProperties None 0 False False None False)
         in if l1 = [] then Inl IndexError
            else
              (let l2 = l1[0 := (l1 ! 0)\<lparr>isFirstUopOfInstr := True\<rparr>];
                   n = length l2 - 1;
                   l3 = l2[n := (l2 ! n)\<lparr>isLastUopOfInstr := True\<rparr>]
               in Inr (i\<lparr>UopPropertiesList := l3\<rparr>))))"

text \<open>
  \<open>computeUopProperties\<close> (lines 1339-1488) over the list of instructions;
  \<open>latInfo\<close> gives the latency information of each instruction.
\<close>

fun computeUopProperties :: "(Instr \<Rightarrow> LatencyInfo) \<Rightarrow> Instr list \<Rightarrow> py_error + Instr list" where
  "computeUopProperties latInfo [] = Inr []"
| "computeUopProperties latInfo (i # instructions) =
     (case computeUopProperties_instr (latInfo i) i of
        Inl e \<Rightarrow> Inl e
      | Inr i' \<Rightarrow>
          (case computeUopProperties latInfo instructions of
             Inl e \<Rightarrow> Inl e
           | Inr instructions' \<Rightarrow> Inr (i' # instructions')))"

text \<open>
  No entry of a list of uop properties is flagged as first or last uop (used in the
  proofs about \<open>computeUopProperties\<close>).
\<close>

definition noFlags :: "UopProperties list \<Rightarrow> bool" where
  "noFlags l = (\<forall>p\<in>set l. \<not> isFirstUopOfInstr p \<and> \<not> isLastUopOfInstr p)"

subsection \<open>Building the instruction list\<close>













subsection \<open>The table of the report: the column of notes\<close>





subsection \<open>Scheduler: dispatch\<close>

text \<open>
  The fields of \<open>class Scheduler\<close> that \<open>dispatchUops\<close> and \<open>addNewUops\<close> read and
  write.
  \<open>rs_uops\<close> is the set \<open>self.uops\<close>, given by the indices of its uops.
  \<open>readyQueue\<close> maps a port to its heap and \<open>readyDivUops\<close> is the heap of the
  uops that use the divider: a heap of pairs \<open>(uop.idx, uop)\<close> is modelled by the list
  of its uops in increasing order of \<open>idx\<close>, so that the first element is the entry
  \<open>heap[0]\<close> with the smallest index and \<open>heappop\<close> removes it. \<open>portUsage\<close> is
  the dictionary from ports to counters, \<open>portUsageAtStartOfCycle\<close> the dictionary
  from cycles to copies of it, and the two queues of fence uops hold uop indices.
\<close>

record Scheduler =
  rs_uops :: "nat set"
  readyQueue :: "string \<Rightarrow> Uop list"
  readyDivUops :: "Uop list"
  divBusy :: int
  pendingUops :: "Uop set"
  portUsage :: "(string \<times> int) list"
  uopsDispatchedInPrevCycle :: "Uop list"
  portUsageAtStartOfCycle :: "int \<Rightarrow> (string \<times> int) list option"
  nextP23Port :: string
  nextP49Port :: string
  nextP78Port :: string
  pendingStoreFenceUops :: "nat list"
  pendingLoadFenceUops :: "nat list"

text \<open>
  The test of line 1022 on two fingerprints \<open>(base, index, scale, disp)\<close>: they
  indicate different cache lines.
\<close>

fun differentCacheLine :: "int \<times> int \<times> int \<times> int \<Rightarrow> int \<times> int \<times> int \<times> int \<Rightarrow> bool" where
  "differentCacheLine (b4, i4, s4, d4) (b9, i9, s9, d9) =
     (b4 \<noteq> b9 \<or> i4 \<noteq> i9 \<or> s4 \<noteq> s9 \<or> \<bar>d4 - d9\<bar> \<ge> 64)"

text \<open>
  Lines 1014-1026: the ports that may dispatch in this cycle.
  \<open>uop.storeBufferEntry.abstractAddress\<close> raises \<open>AttributeError\<close> when the uop
  has no store-buffer entry; \<open>list.remove\<close> removes the first occurrence.
\<close>

definition applicablePorts :: "MicroArchConfig \<Rightarrow> Scheduler \<Rightarrow> py_error + string list" where
  "applicablePorts cfg self =
     (case (readyQueue self ''4'', readyQueue self ''9'') of
        (uop4 # _, uop9 # _) \<Rightarrow>
          if ''4'' \<in> set (allPorts cfg) \<and> ''9'' \<in> set (allPorts cfg)
          then
            (case storeBufferEntry uop4 of
               None \<Rightarrow> Inl AttributeError
             | Some sb4 \<Rightarrow>
                 (case storeBufferEntry uop9 of
                    None \<Rightarrow> Inl AttributeError
                  | Some sb9 \<Rightarrow>
                      (case (abstractAddress sb4, abstractAddress sb9) of
                         (Some addr4, Some addr9) \<Rightarrow>
                           if differentCacheLine addr4 addr9
                           then (if idx uop4 \<le> idx uop9
                                 then Inr (remove1 ''9'' (allPorts cfg))
                                 else Inr (remove1 ''4'' (allPorts cfg)))
                           else Inr (allPorts cfg)
                       | _ \<Rightarrow> Inr (allPorts cfg))))
          else Inr (allPorts cfg)
      | _ \<Rightarrow> Inr (allPorts cfg))"

text \<open>
  The test of line 1031: on port 0 the heap of the divider uops is used when the divider
  is free and its first uop is older than the first uop of the heap of port 0.
\<close>

definition useDivQueue :: "Scheduler \<Rightarrow> string \<Rightarrow> bool" where
  "useDivQueue self port =
     (port = ''0'' \<and> divBusy self = 0
      \<and> (case readyDivUops self of
            [] \<Rightarrow> False
          | d # _ \<Rightarrow> (case readyQueue self ''0'' of [] \<Rightarrow> True | u # _ \<Rightarrow> idx d < idx u)))"

text \<open>
  The loop of lines 1029-1053 over the applicable ports; the last argument is
  \<open>uopsDispatched\<close>. \<open>self.uops.remove(uop)\<close> raises \<open>KeyError\<close> when the uop is
  not in the set.
\<close>

fun dispatchLoop ::
  "int \<Rightarrow> string list \<Rightarrow> Scheduler \<Rightarrow> Uop list \<Rightarrow> py_error + (Scheduler \<times> Uop list)" where
  "dispatchLoop clock [] self uopsDispatched = Inr (self, uopsDispatched)"
| "dispatchLoop clock (port # ports) self uopsDispatched =
     (let fromDiv = useDivQueue self port;
          queue = (if fromDiv then readyDivUops self else readyQueue self port)
      in case queue of
           [] \<Rightarrow> dispatchLoop clock ports self uopsDispatched
         | u # rest \<Rightarrow>
             if idx u \<notin> rs_uops self then Inl KeyError
             else
               (let u' = u\<lparr>dispatched := Some clock\<rparr>;
                    s1 = (if fromDiv then self\<lparr>readyDivUops := rest\<rparr>
                          else self\<lparr>readyQueue := (readyQueue self)(port := rest)\<rparr>);
                    s2 = s1\<lparr>divBusy := divBusy self + prop_divCycles u,
                            rs_uops := rs_uops self - {idx u},
                            pendingUops := insert u' (pendingUops self)\<rparr>
                in dispatchLoop clock ports s2 (uopsDispatched @ [u'])))"

text \<open>
  Lines 1058-1059: the port usage of the uops dispatched in the previous cycle is
  decreased; \<open>self.portUsage[uop.actualPort]\<close> raises \<open>KeyError\<close> for a port that
  is not a key.
\<close>

fun decreasePortUsage :: "Uop list \<Rightarrow> (string \<times> int) list \<Rightarrow> py_error + (string \<times> int) list" where
  "decreasePortUsage [] usage = Inr usage"
| "decreasePortUsage (u # us) usage =
     (case actualPort u of
        None \<Rightarrow> Inl KeyError
      | Some p \<Rightarrow>
          (case map_of usage p of
             None \<Rightarrow> Inl KeyError
           | Some n \<Rightarrow> decreasePortUsage us (map (\<lambda>(k, v). if k = p then (k, n - 1) else (k, v)) usage)))"

text \<open>\<open>Scheduler.dispatchUops\<close> (lines 1013-1060)\<close>

definition dispatchUops :: "MicroArchConfig \<Rightarrow> int \<Rightarrow> Scheduler \<Rightarrow> py_error + Scheduler" where
  "dispatchUops cfg clock self =
     (case applicablePorts cfg self of
        Inl e \<Rightarrow> Inl e
      | Inr ports \<Rightarrow>
          (case dispatchLoop clock ports self [] of
             Inl e \<Rightarrow> Inl e
           | Inr (s1, uopsDispatched) \<Rightarrow>
               (case decreasePortUsage (uopsDispatchedInPrevCycle s1) (portUsage s1) of
                  Inl e \<Rightarrow> Inl e
                | Inr usage \<Rightarrow>
                    Inr (s1\<lparr>portUsage := usage, uopsDispatchedInPrevCycle := uopsDispatched\<rparr>))))"

text \<open>
  The fingerprint of the first uop of a heap, if the heap is not empty, the uop has a
  store-buffer entry and the fingerprint is not \<open>None\<close>.
\<close>

definition headFingerprint :: "Uop list \<Rightarrow> (int \<times> int \<times> int \<times> int) option" where
  "headFingerprint queue =
     (case queue of
        [] \<Rightarrow> None
      | u # _ \<Rightarrow> (case storeBufferEntry u of None \<Rightarrow> None | Some sb \<Rightarrow> abstractAddress sb))"



subsection \<open>Predecoder\<close>

text \<open>
  \<open>class InstrInstance\<close>; \<open>ii_instr\<close> is \<open>instrI.instr\<close> and \<open>ii_uops\<close> is
  \<open>instrI.uops\<close>.
\<close>

record InstrInstance =
  ii_instr :: Instr
  address :: int
  rnd :: nat
  ii_uops :: "LaminatedUop list"
  regMergeUops :: "LaminatedUop list"
  stackSyncUops :: "LaminatedUop list"
  source :: "string option"
  predecoded :: "int option"
  removedFromIQ :: "int option"

text \<open>
  \<open>instrInstanceCrosses16ByteBoundary\<close> (lines 1777-1779). The source compares
  \<open>(address % 16) + len(opcode)/2\<close>, a float, with 16; both sides are doubled here,
  which keeps the comparison exact.
\<close>

definition instrInstanceCrosses16ByteBoundary :: "InstrInstance \<Rightarrow> bool" where
  "instrInstanceCrosses16ByteBoundary instrI =
     (2 * (address instrI mod 16) + int (length (opcode (ii_instr instrI))) > 32)"

text \<open>
  \<open>class PreDecoder\<close>; \<open>instructionQueue\<close> is the queue shared with the decoder,
  \<open>pd_stalled\<close> the counter \<open>self.stalled\<close>.
\<close>

record PreDecoder =
  B16BlockQueue :: "InstrInstance list list"
  instructionQueue :: "InstrInstance list"
  preDecQueue :: "InstrInstance list"
  pd_stalled :: int
  partialInstrI :: "InstrInstance option"

text \<open>
  The loop of lines 903-906: instructions move from the current block to
  \<open>preDecQueue\<close> until the block is empty, \<open>preDecodeWidth\<close> instructions are
  queued, or the next instruction crosses the 16-byte boundary. The result is the rest
  of the block and the queue.
\<close>

fun fillPreDecQueue ::
  "int \<Rightarrow> InstrInstance list \<Rightarrow> InstrInstance list \<Rightarrow> InstrInstance list \<times> InstrInstance list" where
  "fillPreDecQueue width [] queue = ([], queue)"
| "fillPreDecQueue width (instrI # curBlock) queue =
     (if int (length queue) < width
      then (if instrInstanceCrosses16ByteBoundary instrI then (instrI # curBlock, queue)
            else fillPreDecQueue width curBlock (queue @ [instrI]))
      else (instrI # curBlock, queue))"

text \<open>
  Lines 908-914: when exactly one instruction is left in the block and it crosses the
  boundary, it becomes the partial instruction and leaves the block if fewer than 5
  instructions are queued or its nominal opcode starts beyond the block. The result is
  the rest of the block and the new partial instruction.
\<close>

definition takePartial ::
  "InstrInstance list \<Rightarrow> InstrInstance list \<Rightarrow> InstrInstance list \<times> InstrInstance option" where
  "takePartial curBlock queue =
     (case curBlock of
        [instrI] \<Rightarrow>
          if instrInstanceCrosses16ByteBoundary instrI
          then (let offsetOfNominalOpcode =
                      (address instrI mod 16) + posNominalOpcode (ii_instr instrI)
                in if int (length queue) < 5 \<or> offsetOfNominalOpcode \<ge> 16
                   then ([], Some instrI) else (curBlock, None))
          else (curBlock, None)
      | _ \<Rightarrow> (curBlock, None))"

text \<open>
  Lines 896-919, run when the predecoder is not stalled, \<open>preDecQueue\<close> is empty,
  there is a block or a partial instruction, and the instruction queue has room: a new
  group of instructions is queued.
\<close>

definition newPreDecGroup :: "MicroArchConfig \<Rightarrow> PreDecoder \<Rightarrow> PreDecoder" where
  "newPreDecGroup cfg self =
     (let queue0 = (case partialInstrI self of
                      None \<Rightarrow> preDecQueue self
                    | Some p \<Rightarrow> preDecQueue self @ [p]);
          s1 = self\<lparr>preDecQueue := queue0, partialInstrI := None\<rparr>;
          s2 = (case B16BlockQueue s1 of
                  [] \<Rightarrow> s1
                | curBlock # blocks \<Rightarrow>
                    (let (block1, queue1) = fillPreDecQueue (preDecodeWidth cfg) curBlock queue0;
                         (block2, partial) = takePartial block1 queue1
                     in s1\<lparr>preDecQueue := queue1, partialInstrI := partial,
                            B16BlockQueue := (if block2 = [] then blocks else block2 # blocks)\<rparr>))
      in s2\<lparr>pd_stalled :=
               (\<Sum>ii \<leftarrow> filter (\<lambda>ii. lcpStall (ii_instr ii)) (preDecQueue s2). 3)\<rparr>)"

text \<open>\<open>PreDecoder.cycle\<close> (lines 892-927)\<close>

definition PreDecoder_cycle :: "MicroArchConfig \<Rightarrow> int \<Rightarrow> PreDecoder \<Rightarrow> PreDecoder" where
  "PreDecoder_cycle cfg clock self =
     (let s3 =
        (if pd_stalled self = 0
         then
           (let s2 = (if preDecQueue self = []
                         \<and> (B16BlockQueue self \<noteq> [] \<or> partialInstrI self \<noteq> None)
                         \<and> int (length (instructionQueue self)) + preDecodeWidth cfg \<le> IQWidth cfg
                      then newPreDecGroup cfg self else self)
            in if pd_stalled s2 = 0
               then s2\<lparr>instructionQueue := instructionQueue s2
                          @ map (\<lambda>instrI. instrI\<lparr>predecoded := Some clock\<rparr>) (preDecQueue s2),
                        preDecQueue := []\<rparr>
               else s2)
         else self)
      in s3\<lparr>pd_stalled := max 0 (pd_stalled s3 - 1)\<rparr>)"

subsection \<open>Renamer and front end: the queues between the stages\<close>

text \<open>\<open>Scheduler.isFull\<close> (lines 993-994); \<open>len\<close> of the set \<open>self.uops\<close>.\<close>

definition Scheduler_isFull :: "MicroArchConfig \<Rightarrow> Scheduler \<Rightarrow> bool" where
  "Scheduler_isFull cfg self = (int (card (rs_uops self)) + issueWidth cfg > RSWidth cfg)"

text \<open>
  The field of \<open>class Renamer\<close> that the loop at the beginning of \<open>Renamer.cycle\<close>
  writes. \<open>lastRegMergeIssued\<close> holds a uop, which the loop only compares with
  another uop; uops are compared as objects, and the model keeps the index
  \<open>uop.idx\<close>, which \<open>Uop.__init__\<close> takes from a global counter.
\<close>

record Renamer =
  lastRegMergeIssued :: "nat option"

text \<open>
  Lines 266-268: one fused uop for every entry of \<open>regMergeUopPropertiesList\<close>, each
  with a new \<open>Uop(mergeProp, firstUnfusedUop.instrI)\<close>; \<open>it\<close> is the next value of
  the counter \<open>Uop.idx_iter\<close>. The entries of \<open>instr.regMergeUopPropertiesList\<close>
  are built with \<open>instr\<close> as their instruction (line 1333). The copy of the uops in
  \<open>instrI.regMergeUops\<close>, which only the report reads, is not modelled.
\<close>

definition mergeUops :: "nat \<Rightarrow> FEUop \<Rightarrow> UopProperties list \<Rightarrow> FusedUop list" where
  "mergeUops it firstUnfusedUop regMergeProps =
     map (\<lambda>(i, mergeProp).
            \<lparr>unfusedUops = [\<lparr>fe_idx = i, uop_prop = mergeProp, instr = instr firstUnfusedUop,
                              instrI_rnd = instrI_rnd firstUnfusedUop, isStackSyncUop = False,
                              fe_actualPort = None, eliminated = False, executed = None\<rparr>],
             issued = None, retired = None, retireIdx = None\<rparr>)
         (enumerate it regMergeProps)"

text \<open>
  The loop of lines 254-279 of \<open>Renamer.cycle\<close>. The arguments are the result of
  \<open>self.reorderBuffer.isEmpty()\<close> (the loop does not change the reorder buffer), the
  IDQ, \<open>renamerUops\<close>, \<open>self.lastRegMergeIssued\<close> and the counter of uop indices;
  the result is their values when the loop ends. \<open>lamUop.getUnfusedUops()[0]\<close> raises
  \<open>IndexError\<close> for a laminated uop without uops.
\<close>

fun Renamer_cycle_loop ::
  "MicroArchConfig \<Rightarrow> bool \<Rightarrow> LaminatedUop list \<Rightarrow> FusedUop list \<Rightarrow> nat option \<Rightarrow> nat
     \<Rightarrow> py_error + (LaminatedUop list \<times> FusedUop list \<times> nat option \<times> nat)" where
  "Renamer_cycle_loop cfg rbEmpty [] renamerUops lastRM it = Inr ([], renamerUops, lastRM, it)"
| "Renamer_cycle_loop cfg rbEmpty (lamUop # rest) renamerUops lastRM it =
     (case getUnfusedUops lamUop of
        [] \<Rightarrow> Inl IndexError
      | firstUnfusedUop # _ \<Rightarrow>
          (let regMergeProps = regMergeUopPropertiesList (instr firstUnfusedUop);
               first = isFirstUopOfInstr (uop_prop firstUnfusedUop)
           in if first \<and> regMergeProps \<noteq> [] \<and> renamerUops \<noteq> []
              then Inr (lamUop # rest, renamerUops, lastRM, it)
              else if first \<and> regMergeProps \<noteq> [] \<and> lastRM \<noteq> Some (fe_idx firstUnfusedUop)
              then Inr (lamUop # rest,
                        renamerUops @ mergeUops it firstUnfusedUop regMergeProps,
                        Some (fe_idx firstUnfusedUop), it + length regMergeProps)
              else if first \<and> isSerializingInstr (instr firstUnfusedUop) \<and> \<not> rbEmpty
              then Inr (lamUop # rest, renamerUops, lastRM, it)
              else if int (length renamerUops) + int (length (fusedUops lamUop)) > issueWidth cfg
              then Inr (lamUop # rest, renamerUops, lastRM, it)
              else Renamer_cycle_loop cfg rbEmpty rest (renamerUops @ fusedUops lamUop) lastRM it))"

text \<open>
  Lines 503-508 of \<open>FrontEnd.cycle\<close>: the renamer runs if neither the reorder buffer
  nor the scheduler is full, and the fused uops it returns are stamped with the clock.
  The result is \<open>issueUops\<close> with the renamer and the front end after the call. The
  rest of \<open>Renamer.cycle\<close> (lines 281-405: move elimination and renaming) returns
  the list that the loop has built and does not touch the IDQ; it is left out.
\<close>

definition issueUops ::
  "MicroArchConfig \<Rightarrow> int \<Rightarrow> ReorderBuffer \<Rightarrow> Scheduler \<Rightarrow> Renamer \<Rightarrow> FrontEnd
     \<Rightarrow> py_error + (FusedUop list \<times> Renamer \<times> FrontEnd)" where
  "issueUops cfg clock rb sched rn self =
     (if \<not> RB_isFull cfg rb \<and> \<not> Scheduler_isFull cfg sched
      then (case Renamer_cycle_loop cfg (RB_isEmpty rb) (IDQ self) []
                   (lastRegMergeIssued rn) (idx_iter self) of
              Inl e \<Rightarrow> Inl e
            | Inr (idq, renamerUops, lastRM, it) \<Rightarrow>
                Inr (map (\<lambda>fusedUop. fusedUop\<lparr>issued := Some clock\<rparr>) renamerUops,
                     rn\<lparr>lastRegMergeIssued := lastRM\<rparr>,
                     self\<lparr>IDQ := idq, idx_iter := it\<rparr>))
      else Inr ([], rn, self))"

text \<open>
  The loop of lines 571-574 of \<open>FrontEnd.cycle\<close>: every new laminated uop is appended
  to the IDQ, after the stack-sync uop that its first uop may require.
\<close>

fun addToIDQ ::
  "MicroArchConfig \<Rightarrow> (string \<Rightarrow> string) \<Rightarrow> int \<Rightarrow> FrontEnd \<Rightarrow> LaminatedUop list
     \<Rightarrow> py_error + FrontEnd" where
  "addToIDQ cfg getCanonicalReg clock self [] = Inr self"
| "addToIDQ cfg getCanonicalReg clock self (lamUop # newUops) =
     (case getUnfusedUops lamUop of
        [] \<Rightarrow> Inl IndexError
      | u # _ \<Rightarrow>
          (let s1 = addStackSyncUop cfg getCanonicalReg clock self u
           in addToIDQ cfg getCanonicalReg clock
                (s1\<lparr>IDQ := IDQ s1 @ [lamUop\<lparr>addedToIDQ := Some clock\<rparr>]\<rparr>) newUops))"

text \<open>
  Lines 520-522 and 571-574 of \<open>FrontEnd.cycle\<close>, for the front end that is neither
  the simple one nor in LSD mode: nothing is added when
  \<open>len(self.IDQ) + DSBWidth > IDQWidth\<close>; otherwise the laminated uops \<open>newUops\<close>
  that the microcode sequencer, the decoder or the DSB deliver in this cycle (lines
  547-569) are added.
\<close>

definition FrontEnd_cycle_addNewUops ::
  "MicroArchConfig \<Rightarrow> (string \<Rightarrow> string) \<Rightarrow> int \<Rightarrow> FrontEnd \<Rightarrow> LaminatedUop list
     \<Rightarrow> py_error + FrontEnd" where
  "FrontEnd_cycle_addNewUops cfg getCanonicalReg clock self newUops =
     (if int (length (IDQ self)) + DSBWidth cfg > IDQWidth cfg then Inr self
      else addToIDQ cfg getCanonicalReg clock self newUops)"

text \<open>The first unfused uop of every laminated uop of a list (\<open>getUnfusedUops()[0]\<close>).\<close>

definition firstUops :: "LaminatedUop list \<Rightarrow> FEUop list" where
  "firstUops lamUops = concat (map (\<lambda>lamUop. take 1 (getUnfusedUops lamUop)) lamUops)"

subsection \<open>Concrete inputs used by the examples\<close>

text \<open>
  A store-buffer entry whose address is ready in cycle 12 and whose data is ready in
  cycle 8; a load uop dispatched in cycle 9 that found this entry, with latency 5 for
  its output operand 3; the renamed operand written by this load, not yet queried.
\<close>

definition ex_sb :: StoreBufferEntry where
  "ex_sb = \<lparr>abstractAddress = Some (1, 0, 1, 8), addressReadyCycle = Some 12,
            dataReadyCycle = Some 8\<rparr>"

definition ex_load :: Uop where
  "ex_load = \<lparr>idx = 7, prop_latencies = [(3, 5)], prop_divCycles = 0, prop_isLoadUop = True,
              actualPort = Some ''2'', storeBufferEntry = Some ex_sb, dispatched = Some 9\<rparr>"

definition ex_renamed :: RenamedOperand where
  "ex_renamed = \<lparr>nonRenamedOperand = Some 3, uop = Some ex_load, ready = None\<rparr>"

text \<open>An operand whose ready cycle 5 is already memoized.\<close>

definition ex_ready5 :: RenamedOperand where
  "ex_ready5 = \<lparr>nonRenamedOperand = None, uop = None, ready = Some 5\<rparr>"

text \<open>
  A microarchitecture configuration with the widths of a Skylake-like core, and two
  instructions as \<open>getInstructions\<close> builds them: a push (implicit change of RSP by
  \<open>- 8\<close>; RSP is read only as the implicit stack operand) and a pop (change by 8).
  \<open>ex_first_uop i\<close> is a uop that is first (and last) uop of instruction \<open>i\<close>.
\<close>

definition ex_cfg :: MicroArchConfig where
  "ex_cfg = \<lparr>IQWidth = 25, IDQWidth = 64, RBWidth = 224, RSWidth = 97, issueWidth = 4,
             retireWidth = 4, preDecodeWidth = 5, DSBWidth = 6,
             allPorts = [''0'', ''1'', ''2'', ''3'', ''4'', ''5'', ''6'', ''7''],
             stackSyncUopPorts = [''0'', ''1'', ''5'', ''6''],
             simplePortAssignment = False, LSDEnabled = False, LSDUnrolling = (\<lambda>nUops. 1)\<rparr>"

definition ex_push :: Instr where
  "ex_push = (UnknownInstr ''push rax'' ''50'' 0)
     \<lparr>instrStr := ''PUSH (R64)'', uops := 2, uopsMITE := 1,
      inputRegOperands := [\<lparr>reg = ''RAX'', isImplicitStackOperand = False\<rparr>],
      memAddrOperands := [\<lparr>reg = ''RSP'', isImplicitStackOperand = True\<rparr>],
      implicitRSPChange := - 8, isUnknownInstr := False\<rparr>"

definition ex_pop :: Instr where
  "ex_pop = (UnknownInstr ''pop rax'' ''58'' 0)
     \<lparr>instrStr := ''POP (R64)'', uops := 1, uopsMITE := 1,
      outputRegOperands := [\<lparr>reg = ''RAX'', isImplicitStackOperand = False\<rparr>],
      memAddrOperands := [\<lparr>reg = ''RSP'', isImplicitStackOperand = True\<rparr>],
      implicitRSPChange := 8, isUnknownInstr := False\<rparr>"

definition ex_first_uop :: "Instr \<Rightarrow> FEUop" where
  "ex_first_uop i =
     \<lparr>fe_idx = 0,
      uop_prop = \<lparr>possiblePorts = Some [''2'', ''3''], divCycles = 0, isLoadUop = False,
              isStoreAddressUop = False, memAddr = None, isStoreDataUop = False,
              isFirstUopOfInstr = True, isLastUopOfInstr = True, isRegMergeUop = False\<rparr>,
      instr = i, instrI_rnd = 0, isStackSyncUop = False,
      fe_actualPort = None, eliminated = False, executed = None\<rparr>"

text \<open>
  Three cycles of the reorder buffer: in cycle 1 two fused uops (uop indices 1 and 2)
  are issued and the scheduler sets their finish time to 3; in cycle 2 a third fused
  uop is issued; in cycle 4 the first two retire.
\<close>

definition ex_fused :: "nat \<Rightarrow> FusedUop" where
  "ex_fused i = \<lparr>unfusedUops = [(ex_first_uop ex_pop)\<lparr>fe_idx := i\<rparr>], issued = None,
                 retired = None, retireIdx = None\<rparr>"

definition ex_cycles :: "RBCycleInput list" where
  "ex_cycles =
     [\<lparr>cyc_clock = 1, cyc_newUops = [ex_fused 1, ex_fused 2], cyc_finished = [(1, 3), (2, 3)]\<rparr>,
      \<lparr>cyc_clock = 2, cyc_newUops = [ex_fused 3], cyc_finished = []\<rparr>,
      \<lparr>cyc_clock = 4, cyc_newUops = [], cyc_finished = []\<rparr>]"

definition ex_retiredLog :: "FusedUop list" where
  "ex_retiredLog =
    [(ex_fused 1)\<lparr>unfusedUops := [(ex_first_uop ex_pop)\<lparr>fe_idx := 1, executed := Some 3\<rparr>],
                   retired := Some 4, retireIdx := Some 0\<rparr>,
     (ex_fused 2)\<lparr>unfusedUops := [(ex_first_uop ex_pop)\<lparr>fe_idx := 2, executed := Some 3\<rparr>],
                   retired := Some 4, retireIdx := Some 1\<rparr>]"

text \<open>
  A stand-in for \<open>frontEnd.cycle()\<close> that retires one fused uop per cycle, of round
  \<open>clock div 40\<close>; the simulator's objects are left out (\<open>unit\<close>).
\<close>

definition ex_frontEnd_cycle :: "int \<Rightarrow> unit \<Rightarrow> unit \<times> FusedUop list" where
  "ex_frontEnd_cycle clock sim =
     ((), [\<lparr>unfusedUops = [(ex_first_uop ex_pop)\<lparr>instrI_rnd := nat clock div 40\<rparr>],
            issued = Some (clock - 3), retired = Some clock, retireIdx = Some 0\<rparr>])"

text \<open>
  An instruction with a load uop and an ALU uop (\<open>add rax, [rbx]\<close>), latency
  information with one latency class, and the uop properties that
  \<open>computeUopProperties\<close> gives the instruction.
\<close>

definition ex_add_mem :: Instr where
  "ex_add_mem = (UnknownInstr ''add rax, qword ptr [rbx]'' ''480303'' 1)
     \<lparr>instrStr := ''ADD (R64, M64)'', portData := [(''0156'', 1), (''23'', 1)], uops := 2,
      inputRegOperands := [\<lparr>reg = ''RAX'', isImplicitStackOperand = False\<rparr>],
      inputMemOperands := [\<lparr>base = Some ''RBX'', index = None, scale = 1, displacement = 0\<rparr>],
      outputRegOperands := [\<lparr>reg = ''RAX'', isImplicitStackOperand = False\<rparr>],
      outputFlagOperands := [''C'', ''SPAZO''],
      memAddrOperands := [\<lparr>reg = ''RBX'', isImplicitStackOperand = False\<rparr>],
      TP := Some 1, isUnknownInstr := False\<rparr>"

definition ex_latInfo :: "Instr \<Rightarrow> LatencyInfo" where
  "ex_latInfo i = \<lparr>shiftLikeLatencies = False, nLatClasses = 1\<rparr>"

definition ex_add_mem_props :: "UopProperties list" where
  "ex_add_mem_props =
     [(mkUopProperties (Some [''2'', ''3'']) 0 True False
         (Some \<lparr>base = Some ''RBX'', index = None, scale = 1, displacement = 0\<rparr>) False)
        \<lparr>isFirstUopOfInstr := True\<rparr>,
      (mkUopProperties (Some [''0'', ''1'', ''5'', ''6'']) 0 False False None False)
        \<lparr>isLastUopOfInstr := True\<rparr>]"



text \<open>
  A configuration with ten ports and a scheduler in which the heaps of ports 4 and 9 each
  hold one store uop: uop 3 on port 4 and uop 5 on port 9, with fingerprints that
  differ only in the displacement (0 and 64).
\<close>

definition ex_cfg10 :: MicroArchConfig where
  "ex_cfg10 = ex_cfg\<lparr>allPorts := allPorts ex_cfg @ [''8'', ''9'']\<rparr>"

definition ex_store :: "nat \<Rightarrow> string \<Rightarrow> int \<Rightarrow> Uop" where
  "ex_store i port disp =
     \<lparr>idx = i, prop_latencies = [], prop_divCycles = 0, prop_isLoadUop = False,
      actualPort = Some port,
      storeBufferEntry = Some \<lparr>abstractAddress = Some (1, 0, 1, disp), addressReadyCycle = None,
                                dataReadyCycle = None\<rparr>,
      dispatched = None\<rparr>"

definition ex_sched :: Scheduler where
  "ex_sched =
     \<lparr>rs_uops = {3, 5},
      readyQueue = (\<lambda>p. [])(''4'' := [ex_store 3 ''4'' 0], ''9'' := [ex_store 5 ''9'' 64]),
      readyDivUops = [], divBusy = 0, pendingUops = {},
      portUsage = [(''0'', 0), (''1'', 0), (''2'', 0), (''3'', 0), (''4'', 1), (''5'', 0),
                   (''6'', 0), (''7'', 0), (''8'', 0), (''9'', 1)],
      uopsDispatchedInPrevCycle = [], portUsageAtStartOfCycle = (\<lambda>c. None),
      nextP23Port = ''2'', nextP49Port = ''4'', nextP78Port = ''7'',
      pendingStoreFenceUops = [], pendingLoadFenceUops = []\<rparr>"

text \<open>
  Instruction instances at a given address with a given opcode (two hexadecimal digits
  per byte) and position of the nominal opcode; a 16-byte block of five 2-byte
  instructions followed by a 10-byte instruction at offset 10, which crosses the
  boundary; a predecoder that has one block queued and nothing else.
\<close>

definition ex_instrI :: "int \<Rightarrow> string \<Rightarrow> int \<Rightarrow> InstrInstance" where
  "ex_instrI a opc pos =
     \<lparr>ii_instr = UnknownInstr ''instruction'' opc pos, address = a, rnd = 0, ii_uops = [],
      regMergeUops = [], stackSyncUops = [], source = Some ''MITE'', predecoded = None,
      removedFromIQ = None\<rparr>"

definition ex_block :: "InstrInstance list" where
  "ex_block = [ex_instrI 0 ''89C8'' 0, ex_instrI 2 ''89C8'' 0, ex_instrI 4 ''89C8'' 0,
               ex_instrI 6 ''89C8'' 0, ex_instrI 8 ''89C8'' 0,
               ex_instrI 10 ''48B80100000000000000'' 1]"

definition ex_pd :: "InstrInstance list \<Rightarrow> PreDecoder" where
  "ex_pd block = \<lparr>B16BlockQueue = [block], instructionQueue = [], preDecQueue = [],
                  pd_stalled = 0, partialInstrI = None\<rparr>"

text \<open>
  A load from the top of the stack, \<open>mov rbx, [rsp]\<close>, which reads RSP explicitly; a
  laminated uop of one fused uop with one uop, the only uop of its instruction, as the
  DSB delivers it; a front end that tracks no RSP offset and has \<open>n\<close> laminated uops
  in the IDQ; the uops of three pairs of a pop and such a load; a reorder buffer with
  \<open>n\<close> fused uops, and a renamer that has issued no register-merge uops yet.
\<close>

definition ex_mov_rsp :: Instr where
  "ex_mov_rsp = (UnknownInstr ''mov rbx, qword ptr [rsp]'' ''488B1C24'' 1)
     \<lparr>instrStr := ''MOV (R64, M64)'', uops := 1, uopsMITE := 1,
      outputRegOperands := [\<lparr>reg = ''RBX'', isImplicitStackOperand = False\<rparr>],
      memAddrOperands := [\<lparr>reg = ''RSP'', isImplicitStackOperand = False\<rparr>],
      isUnknownInstr := False\<rparr>"

definition ex_lam :: "nat \<Rightarrow> Instr \<Rightarrow> LaminatedUop" where
  "ex_lam i ins =
     \<lparr>fusedUops = [\<lparr>unfusedUops = [(ex_first_uop ins)\<lparr>fe_idx := i\<rparr>], issued = None,
                     retired = None, retireIdx = None\<rparr>],
      addedToIDQ = None, uopSource = Some ''DSB''\<rparr>"

definition ex_fe :: "nat \<Rightarrow> FrontEnd" where
  "ex_fe n = \<lparr>IDQ = map (\<lambda>i. ex_lam i ex_mov_rsp) [0..<n], RSPOffset = 0, idx_iter = 64\<rparr>"

definition ex_newUops :: "LaminatedUop list" where
  "ex_newUops = [ex_lam 58 ex_pop, ex_lam 59 ex_mov_rsp, ex_lam 60 ex_pop, ex_lam 61 ex_mov_rsp,
                 ex_lam 62 ex_pop, ex_lam 63 ex_mov_rsp]"


definition ex_rb :: "nat \<Rightarrow> ReorderBuffer" where
  "ex_rb n = \<lparr>rb_uops = map ex_fused [0..<n], retireQueue = []\<rparr>"

definition ex_rn :: Renamer where
  "ex_rn = \<lparr>lastRegMergeIssued = None\<rparr>"

section \<open>Properties\<close>

subsection \<open>Renamed operands\<close>

lemma getReadyCycle_memo:
  "getReadyCycle self = (Some r, self') \<Longrightarrow> getReadyCycle self' = (Some r, self')"
  by (auto simp: getReadyCycle_def Let_def split: option.splits if_splits prod.splits)

lemma getReadyCycle_Some_fst:
  "fst (getReadyCycle self) = Some r \<Longrightarrow> getReadyCycle self = (Some r, snd (getReadyCycle self))"
  by (metis prod.collapse)

text \<open>
  Claim C2. Let a renamed operand be queried for the first time (no memo yet), and let
  its producing uop be dispatched in cycle \<open>d\<close>; let \<open>lat\<close> be the latency of the
  producer for this output (1 when the latency dictionary has no entry). Then
  \<^item> if the producer is not a load, or is a load without a store-buffer entry,
    \<open>getReadyCycle\<close> returns \<open>d + lat\<close>;
  \<^item> if the producer is a load with a store-buffer entry whose address-ready cycle \<open>a\<close>
    and data-ready cycle \<open>dt\<close> are both known, it returns
    \<open>max (d + lat) (max a dt + 4)\<close>, which is at least \<open>max a dt + 4\<close> (4 is the
    forwarding latency of the source);
  \<^item> if one of the two cycles is unknown, it returns \<open>None\<close> and leaves the operand
    as it was (nothing is memoized);
  \<^item> a returned cycle is memoized: the operand after the call holds it, and a
    second query returns the same cycle.
\<close>

theorem getReadyCycle_dispatched:
  assumes "ready self = None" and "uop self = Some u" and "dispatched u = Some d"
  defines "lat \<equiv> latencies_get (prop_latencies u) (nonRenamedOperand self)"
  shows "(\<not> prop_isLoadUop u \<or> storeBufferEntry u = None \<longrightarrow>
            fst (getReadyCycle self) = Some (d + lat))
       \<and> (\<forall>sb a dt. prop_isLoadUop u \<and> storeBufferEntry u = Some sb
              \<and> addressReadyCycle sb = Some a \<and> dataReadyCycle sb = Some dt \<longrightarrow>
            fst (getReadyCycle self) = Some (max (d + lat) (max a dt + 4))
            \<and> max a dt + 4 \<le> max (d + lat) (max a dt + 4))
       \<and> (\<forall>sb. prop_isLoadUop u \<and> storeBufferEntry u = Some sb
              \<and> (addressReadyCycle sb = None \<or> dataReadyCycle sb = None) \<longrightarrow>
            getReadyCycle self = (None, self))
       \<and> (\<forall>r. fst (getReadyCycle self) = Some r \<longrightarrow>
            snd (getReadyCycle self) = self\<lparr>ready := Some r\<rparr>
            \<and> getReadyCycle (snd (getReadyCycle self)) = (Some r, snd (getReadyCycle self)))"
  using assms
  by (auto simp: getReadyCycle_def Let_def split: option.splits)

theorem getReadyCycle_dispatched_witness:
  "ready ex_renamed = None \<and> uop ex_renamed = Some ex_load \<and> dispatched ex_load = Some 9
   \<and> prop_isLoadUop ex_load \<and> storeBufferEntry ex_load = Some ex_sb
   \<and> addressReadyCycle ex_sb = Some 12 \<and> dataReadyCycle ex_sb = Some 8
   \<and> fst (getReadyCycle ex_renamed) = Some 16
   \<and> getReadyCycle (snd (getReadyCycle ex_renamed)) = (Some 16, ex_renamed\<lparr>ready := Some 16\<rparr>)"
proof -
  have h: "ready ex_renamed = None" "uop ex_renamed = Some ex_load" "dispatched ex_load = Some 9"
    by (simp_all add: ex_renamed_def ex_load_def)
  have sb: "prop_isLoadUop ex_load" "storeBufferEntry ex_load = Some ex_sb"
    "addressReadyCycle ex_sb = Some 12" "dataReadyCycle ex_sb = Some 8"
    by (simp_all add: ex_load_def ex_sb_def)
  have lat: "latencies_get (prop_latencies ex_load) (nonRenamedOperand ex_renamed) = 5"
    by (simp add: latencies_get_def ex_load_def ex_renamed_def)
  from getReadyCycle_dispatched [OF h] sb lat
  have r: "fst (getReadyCycle ex_renamed) = Some 16" by simp
  with getReadyCycle_dispatched [OF h]
  have "snd (getReadyCycle ex_renamed) = ex_renamed\<lparr>ready := Some 16\<rparr>"
    and "getReadyCycle (snd (getReadyCycle ex_renamed)) = (Some 16, snd (getReadyCycle ex_renamed))"
    by blast+
  with h sb r show ?thesis by simp
qed

subsection \<open>Ready for dispatch\<close>

lemma opReadyCycle_loop_known:
  "map (\<lambda>r. fst (getReadyCycle r)) ops = map Some cs \<Longrightarrow>
   \<exists>ops'. opReadyCycle_loop acc ops = Inr (Some (foldl max acc cs), ops')"
proof (induction ops arbitrary: acc cs)
  case Nil
  then show ?case by simp
next
  case (Cons r ops)
  then obtain c cs' where cs: "cs = c # cs'" and c: "fst (getReadyCycle r) = Some c"
    and rest: "map (\<lambda>r. fst (getReadyCycle r)) ops = map Some cs'"
    by (cases cs) auto
  from c obtain r1 where r1: "getReadyCycle r = (Some c, r1)"
    by (cases "getReadyCycle r") auto
  then have r1': "getReadyCycle r1 = (Some c, r1)"
    by (rule getReadyCycle_memo)
  from Cons.IH [OF rest, of "max acc c"] obtain ops' where
    "opReadyCycle_loop (max acc c) ops = Inr (Some (foldl max (max acc c) cs'), ops')"
    by blast
  then show ?case using r1 r1' cs by simp
qed

text \<open>
  Claim C3, as the code has it. When every renamed input operand of a uop has a known
  ready cycle (the list \<open>cs\<close>, in operand order), \<open>getReadyForDispatchCycle\<close> returns
  the maximum of \<open>clock + 1\<close> and of \<open>max m (issued + issueDispatchDelay)\<close> plus the
  bump, where \<open>m\<close> is the maximum of \<open>- 1\<close> and the input ready cycles; the bump of one
  cycle is applied exactly when \<open>m = issued + issueDispatchDelay\<close> or
  \<open>m = issued + issueDispatchDelay + 1\<close>.
\<close>

theorem getReadyForDispatchCycle_known:
  assumes "map (\<lambda>r. fst (getReadyCycle r)) renamedInputOperands = map Some cs"
  shows "\<exists>ops'. getReadyForDispatchCycle clock issueDispatchDelay issuedCycle renamedInputOperands
           = Inr (Some (readyForDispatch_formula clock issueDispatchDelay issuedCycle
                          (foldl max (- 1) cs)), ops')"
proof -
  from opReadyCycle_loop_known [OF assms, of "- 1"] obtain ops' where
    "opReadyCycle_loop (- 1) renamedInputOperands = Inr (Some (foldl max (- 1) cs), ops')"
    by blast
  then show ?thesis
    by (auto simp: getReadyForDispatchCycle_def readyForDispatch_formula_def Let_def)
qed

theorem getReadyForDispatchCycle_known_witness:
  "map (\<lambda>r. fst (getReadyCycle r)) [ex_ready5] = map Some [5]
   \<and> (\<exists>ops'. getReadyForDispatchCycle 0 2 2 [ex_ready5] = Inr (Some 6, ops'))"
proof -
  have h: "map (\<lambda>r. fst (getReadyCycle r)) [ex_ready5] = map Some [5]"
    by (simp add: getReadyCycle_def ex_ready5_def)
  have "readyForDispatch_formula 0 2 2 (foldl max (- 1) [5]) = 6"
    by (simp add: readyForDispatch_formula_def)
  with getReadyForDispatchCycle_known [OF h, of 0 2 2] h show ?thesis by simp
qed

text \<open>
  The claim as the specification words it fails: with \<open>clock = 0\<close>,
  \<open>issueDispatchDelay = 2\<close>, \<open>issued = 2\<close> and one input that is ready in cycle 5
  (which is \<open>issued + issueDispatchDelay + 1\<close>, not the boundary itself), the code
  answers 6, the formula of the specification 5.
\<close>

theorem getReadyForDispatchCycle_counterexample:
  "map_sum id fst (getReadyForDispatchCycle 0 2 2 [ex_ready5]) = Inr (Some 6)
   \<and> readyForDispatch_claimed 0 2 2 5 = 5"
  by (simp add: getReadyForDispatchCycle_def getReadyCycle_def ex_ready5_def
      readyForDispatch_claimed_def)

subsection \<open>Stack engine\<close>

text \<open>
  Claim C4, as the code has it. For a uop that is the first uop of its instruction,
  let \<open>offset\<close> be the tracked RSP offset (reset to 0 first when it is nonzero and the
  instruction reads RSP explicitly) plus the instruction's \<open>implicitRSPChange\<close>. A
  stack-sync uop is appended to the IDQ exactly when \<open>offset > 192\<close> or the explicit
  read forced one, and the offset after the call is 0 when \<open>offset > 192\<close> or the
  instruction writes RSP, and \<open>offset\<close> otherwise. The comparison is signed: an
  offset below \<open>- 192\<close> injects nothing and is kept.
\<close>

theorem addStackSyncUop_threshold:
  fixes self :: FrontEnd and u :: FEUop and getCanonicalReg :: "string \<Rightarrow> string"
    and cfg :: MicroArchConfig and clock :: int
  assumes "isFirstUopOfInstr (uop_prop u)"
  defines "explicitRead \<equiv> RSPOffset self \<noteq> 0 \<and> readsRSP getCanonicalReg (instr u)"
  defines "offset \<equiv> (if explicitRead then 0 else RSPOffset self) + implicitRSPChange (instr u)"
  defines "self' \<equiv> addStackSyncUop cfg getCanonicalReg clock self u"
  shows "IDQ self' = (if 192 < offset \<or> explicitRead
                      then IDQ self @ [syncLamUop cfg clock self u] else IDQ self)
       \<and> RSPOffset self' = (if 192 < offset \<or> writesRSP getCanonicalReg (instr u)
                            then 0 else offset)"
  using assms(1)
  by (auto simp: addStackSyncUop_def Let_def explicitRead_def offset_def self'_def
      syncLamUop_def)

theorem addStackSyncUop_threshold_witness:
  "isFirstUopOfInstr (uop_prop (ex_first_uop ex_pop))
   \<and> IDQ (addStackSyncUop ex_cfg (\<lambda>r. r) 7 \<lparr>IDQ = [], RSPOffset = 190, idx_iter = 1\<rparr>
             (ex_first_uop ex_pop))
       = [syncLamUop ex_cfg 7 \<lparr>IDQ = [], RSPOffset = 190, idx_iter = 1\<rparr> (ex_first_uop ex_pop)]
   \<and> RSPOffset (addStackSyncUop ex_cfg (\<lambda>r. r) 7 \<lparr>IDQ = [], RSPOffset = 190, idx_iter = 1\<rparr>
             (ex_first_uop ex_pop)) = 0"
proof -
  have h: "isFirstUopOfInstr (uop_prop (ex_first_uop ex_pop))"
    by (simp add: ex_first_uop_def)
  have i: "implicitRSPChange (instr (ex_first_uop ex_pop)) = 8"
    "\<not> readsRSP (\<lambda>r. r) (instr (ex_first_uop ex_pop))"
    by (simp_all add: ex_first_uop_def ex_pop_def UnknownInstr_def readsRSP_def)
  from addStackSyncUop_threshold [OF h, where self = "\<lparr>IDQ = [], RSPOffset = 190, idx_iter = 1\<rparr>"
      and getCanonicalReg = "\<lambda>r. r" and cfg = ex_cfg and clock = 7] h i
  show ?thesis by simp
qed

text \<open>
  The claim as the specification words it (a sync whenever the offset exceeds 192 in
  magnitude, also for negative offsets) fails: with the tracked offset at \<open>- 192\<close>, the
  first uop of a push (\<open>implicitRSPChange = - 8\<close>) moves the offset to \<open>- 200\<close>, whose
  magnitude exceeds 192, and no stack-sync uop is appended and the offset is not reset.
\<close>

theorem addStackSyncUop_counterexample:
  "isFirstUopOfInstr (uop_prop (ex_first_uop ex_push))
   \<and> RSPOffset (addStackSyncUop ex_cfg (\<lambda>r. r) 7 \<lparr>IDQ = [], RSPOffset = - 192, idx_iter = 1\<rparr>
                 (ex_first_uop ex_push)) = - 200
   \<and> IDQ (addStackSyncUop ex_cfg (\<lambda>r. r) 7 \<lparr>IDQ = [], RSPOffset = - 192, idx_iter = 1\<rparr>
                 (ex_first_uop ex_push)) = []
   \<and> 192 < \<bar>- 200 :: int\<bar>"
  by (simp add: addStackSyncUop_def ex_first_uop_def ex_push_def UnknownInstr_def
      readsRSP_def writesRSP_def Let_def)

subsection \<open>Reorder buffer: retirement\<close>

lemma retireUops_loop_new:
  "\<exists>new. retireQueue (retireUops_loop k clock n self) = retireQueue self @ new
     \<and> length new \<le> k
     \<and> map unfusedUops new @ map unfusedUops (rb_uops (retireUops_loop k clock n self))
         = map unfusedUops (rb_uops self)
     \<and> (\<forall>f\<in>set new. retired f = Some clock \<and> allExecutedBefore clock f
            \<and> (\<exists>i. retireIdx f = Some i \<and> n \<le> i))
     \<and> sorted_wrt retiredBefore new"
proof (induction k arbitrary: n self)
  case 0
  show ?case by simp
next
  case (Suc k)
  show ?case
  proof (cases "rb_uops self")
    case Nil
    then show ?thesis by simp
  next
    case (Cons f rest)
    show ?thesis
    proof (cases "allExecutedBefore clock f")
      case False
      with Cons show ?thesis by simp
    next
      case True
      let ?f' = "f\<lparr>retired := Some clock, retireIdx := Some n\<rparr>"
      let ?s = "self\<lparr>rb_uops := rest, retireQueue := retireQueue self @ [?f']\<rparr>"
      from Suc.IH [of "n + 1" ?s] obtain new where
        q: "retireQueue (retireUops_loop k clock (n + 1) ?s) = retireQueue ?s @ new"
        and l: "length new \<le> k"
        and u: "map unfusedUops new @ map unfusedUops (rb_uops (retireUops_loop k clock (n + 1) ?s))
                = map unfusedUops (rb_uops ?s)"
        and a: "\<forall>f\<in>set new. retired f = Some clock \<and> allExecutedBefore clock f
            \<and> (\<exists>i. retireIdx f = Some i \<and> n + 1 \<le> i)"
        and s: "sorted_wrt retiredBefore new"
        by blast
      have e: "retireUops_loop (Suc k) clock n self = retireUops_loop k clock (n + 1) ?s"
        using Cons True by simp
      have f': "allExecutedBefore clock ?f'"
        using True by (simp add: allExecutedBefore_def)
      have lt: "\<forall>g\<in>set new. retiredBefore ?f' g"
        using a by (fastforce simp: retiredBefore_def)
      show ?thesis
        apply (rule exI [of _ "?f' # new"])
        using q l u a s e f' lt Cons by auto
    qed
  qed
qed

lemma map_fusedUopId: "map fusedUopId fs = map (map fe_idx) (map unfusedUops fs)"
  by (simp add: fusedUopId_def)

lemma fusedUopId_addUops:
  "fusedUopId (fusedUop\<lparr>unfusedUops :=
       map (\<lambda>u. if P u then u\<lparr>executed := x\<rparr> else u) (unfusedUops fusedUop)\<rparr>)
   = fusedUopId fusedUop"
  by (simp add: fusedUopId_def comp_def if_distrib [of fe_idx])

lemma fusedUopId_setExecuted: "fusedUopId (setExecuted fin fusedUop) = fusedUopId fusedUop"
proof -
  have h: "fe_idx (case map_of fin (fe_idx u) of None \<Rightarrow> u | Some e \<Rightarrow> u\<lparr>executed := Some e\<rparr>)
        = fe_idx u" for u
    by (cases "map_of fin (fe_idx u)") simp_all
  show ?thesis by (simp add: fusedUopId_def setExecuted_def comp_def h)
qed

lemma RB_cycle_new:
  assumes "retireQueue self = []"
  shows "length (retireQueue (RB_cycle cfg clock self newUops)) \<le> nat (retireWidth cfg)
     \<and> map fusedUopId (retireQueue (RB_cycle cfg clock self newUops))
         @ map fusedUopId (rb_uops (RB_cycle cfg clock self newUops))
         = map fusedUopId (rb_uops self) @ map fusedUopId newUops
     \<and> (\<forall>f\<in>set (retireQueue (RB_cycle cfg clock self newUops)).
            retired f = Some clock \<and> allExecutedBefore clock f \<and> (\<exists>i. retireIdx f = Some i))
     \<and> sorted_wrt retiredBefore (retireQueue (RB_cycle cfg clock self newUops))"
proof -
  let ?r = "retireUops_loop (nat (retireWidth cfg)) clock 0 self"
  from retireUops_loop_new [of "nat (retireWidth cfg)" clock 0 self] assms
  obtain new where q: "retireQueue ?r = new" and l: "length new \<le> nat (retireWidth cfg)"
    and u: "map unfusedUops new @ map unfusedUops (rb_uops ?r) = map unfusedUops (rb_uops self)"
    and a: "\<forall>f\<in>set new. retired f = Some clock \<and> allExecutedBefore clock f
            \<and> (\<exists>i. retireIdx f = Some i \<and> 0 \<le> i)"
    and s: "sorted_wrt retiredBefore new"
    by auto
  from u have "map (map fe_idx) (map unfusedUops new @ map unfusedUops (rb_uops ?r))
      = map (map fe_idx) (map unfusedUops (rb_uops self))" by simp
  then have id: "map fusedUopId new @ map fusedUopId (rb_uops ?r) = map fusedUopId (rb_uops self)"
    by (simp add: map_fusedUopId)
  have rq: "retireQueue (RB_cycle cfg clock self newUops) = new"
    using q by (simp add: RB_cycle_def RB_addUops_def retireUops_def)
  have ru: "map fusedUopId (rb_uops (RB_cycle cfg clock self newUops))
      = map fusedUopId (rb_uops ?r) @ map fusedUopId newUops"
    by (simp add: RB_cycle_def RB_addUops_def retireUops_def fusedUopId_addUops comp_def)
  show ?thesis using rq ru id l a s by auto
qed

lemma RB_run_inv:
  assumes "sorted_wrt (<) (map cyc_clock cs)" and "\<forall>c\<in>set cs. lo < cyc_clock c"
    and "retireQueue self = []" and "retireLogOk cfg lo log"
    and "RB_run cfg cs self log = (self', log')"
  shows "(\<exists>hi. retireLogOk cfg hi log')
     \<and> map fusedUopId log' @ map fusedUopId (rb_uops self')
        = map fusedUopId log @ map fusedUopId (rb_uops self)
          @ map fusedUopId (concat (map cyc_newUops cs))"
  using assms
proof (induction cs arbitrary: lo self log)
  case Nil
  then show ?case by auto
next
  case (Cons c cs)
  let ?rb1 = "RB_cycle cfg (cyc_clock c) self (cyc_newUops c)"
  let ?rb2 = "?rb1\<lparr>rb_uops := map (setExecuted (cyc_finished c)) (rb_uops ?rb1), retireQueue := []\<rparr>"
  let ?new = "retireQueue ?rb1"
  from RB_cycle_new [OF Cons.prems(3), of cfg "cyc_clock c" "cyc_newUops c"]
  have l: "length ?new \<le> nat (retireWidth cfg)"
    and id: "map fusedUopId ?new @ map fusedUopId (rb_uops ?rb1)
         = map fusedUopId (rb_uops self) @ map fusedUopId (cyc_newUops c)"
    and a: "\<forall>f\<in>set ?new. retired f = Some (cyc_clock c) \<and> allExecutedBefore (cyc_clock c) f
         \<and> (\<exists>i. retireIdx f = Some i)"
    and s: "sorted_wrt retiredBefore ?new"
    by blast+
  have lo: "lo < cyc_clock c" using Cons.prems(2) by simp
  from Cons.prems(4) have
    ls: "sorted_wrt retiredBefore log"
    and la: "\<forall>f\<in>set log. \<exists>r i. retired f = Some r \<and> retireIdx f = Some i \<and> r \<le> lo
             \<and> allExecutedBefore r f"
    and lc: "\<forall>c. length (filter (\<lambda>f. retired f = Some c) log) \<le> nat (retireWidth cfg)"
    by (auto simp: retireLogOk_def)
  have cross: "\<forall>f\<in>set log. \<forall>g\<in>set ?new. retiredBefore f g"
  proof (intro ballI)
    fix f g assume "f \<in> set log" "g \<in> set ?new"
    with la a lo show "retiredBefore f g"
      by (fastforce simp: retiredBefore_def)
  qed
  have srt: "sorted_wrt retiredBefore (log @ ?new)"
    using ls s cross by (simp add: sorted_wrt_append)
  have all: "\<forall>f\<in>set (log @ ?new). \<exists>r i. retired f = Some r \<and> retireIdx f = Some i
      \<and> r \<le> cyc_clock c \<and> allExecutedBefore r f"
    using la a lo by fastforce
  have cnt: "length (filter (\<lambda>f. retired f = Some k) (log @ ?new)) \<le> nat (retireWidth cfg)" for k
  proof (cases "k = cyc_clock c")
    case True
    have "filter (\<lambda>f. retired f = Some k) log = []"
      using la lo True by (fastforce simp: filter_empty_conv)
    moreover have "length (filter (\<lambda>f. retired f = Some k) ?new) \<le> nat (retireWidth cfg)"
      by (rule le_trans [OF length_filter_le l])
    ultimately show ?thesis by simp
  next
    case False
    have "filter (\<lambda>f. retired f = Some k) ?new = []"
      using a False by (fastforce simp: filter_empty_conv)
    then show ?thesis using lc by simp
  qed
  have ok: "retireLogOk cfg (cyc_clock c) (log @ ?new)"
    using srt all cnt by (simp add: retireLogOk_def)
  have run: "RB_run cfg cs ?rb2 (log @ ?new) = (self', log')"
    using Cons.prems(5) by (simp add: Let_def)
  have st: "sorted_wrt (<) (map cyc_clock cs)" "\<forall>d\<in>set cs. cyc_clock c < cyc_clock d"
    using Cons.prems(1) by auto
  have rq: "retireQueue ?rb2 = []" by simp
  from Cons.IH [OF st rq ok run]
  have h: "\<exists>hi. retireLogOk cfg hi log'"
    and i: "map fusedUopId log' @ map fusedUopId (rb_uops self')
        = map fusedUopId (log @ ?new) @ map fusedUopId (rb_uops ?rb2)
          @ map fusedUopId (concat (map cyc_newUops cs))"
    by blast+
  have e: "map fusedUopId (rb_uops ?rb2) = map fusedUopId (rb_uops ?rb1)"
    by (simp add: comp_def fusedUopId_setExecuted)
  have "map fusedUopId log' @ map fusedUopId (rb_uops self')
        = map fusedUopId log @ (map fusedUopId ?new @ map fusedUopId (rb_uops ?rb1))
          @ map fusedUopId (concat (map cyc_newUops cs))"
    unfolding i e by (simp only: map_append append_assoc)
  also have "\<dots> = map fusedUopId log @ map fusedUopId (rb_uops self)
          @ map fusedUopId (concat (map cyc_newUops (c # cs)))"
    unfolding id by simp
  finally show ?case using h by blast
qed


text \<open>
  Claim C7. Consider a run of the reorder buffer from its empty initial state over
  cycles whose clock values increase strictly (the main loop adds one per cycle). Then
  \<^item> the fused uops retired during the run are the first fused uops of the issue
    order (the program order), in that order;
  \<^item> of two retired fused uops the one that is earlier in this order has the smaller
    \<open>retired\<close> cycle, or the same cycle and the smaller \<open>retireIdx\<close>;
  \<^item> every retired fused uop retired in a cycle \<open>c\<close> in which each of its unfused
    uops had \<open>executed\<close> set to a cycle strictly below \<open>c\<close>;
  \<^item> no cycle retires more than \<open>retireWidth\<close> fused uops.
\<close>

theorem retirement_in_program_order:
  assumes "sorted_wrt (<) (map cyc_clock cycles)"
    and "RB_run cfg cycles \<lparr>rb_uops = [], retireQueue = []\<rparr> [] = (rb, retiredLog)"
  shows "map fusedUopId retiredLog
           = take (length retiredLog) (map fusedUopId (concat (map cyc_newUops cycles)))
       \<and> (\<forall>i j. i < j \<and> j < length retiredLog \<longrightarrow>
              retiredBefore (retiredLog ! i) (retiredLog ! j))
       \<and> (\<forall>f\<in>set retiredLog. \<exists>c. retired f = Some c \<and> allExecutedBefore c f)
       \<and> (\<forall>c. length (filter (\<lambda>f. retired f = Some c) retiredLog) \<le> nat (retireWidth cfg))"
proof -
  define lo where "lo = (case cycles of [] \<Rightarrow> 0 | c # _ \<Rightarrow> cyc_clock c - 1)"
  have lo: "\<forall>c\<in>set cycles. lo < cyc_clock c"
    using assms(1) by (cases cycles) (auto simp: lo_def)
  have ok: "retireLogOk cfg lo []"
    by (simp add: retireLogOk_def)
  from RB_run_inv [OF assms(1) lo _ ok assms(2)]
  obtain hi where h: "retireLogOk cfg hi retiredLog"
    and i: "map fusedUopId retiredLog @ map fusedUopId (rb_uops rb)
        = map fusedUopId (concat (map cyc_newUops cycles))"
    by auto
  from i have "take (length retiredLog) (map fusedUopId (concat (map cyc_newUops cycles)))
      = map fusedUopId retiredLog"
    by (metis append_eq_conv_conj length_map)
  moreover from h have "\<forall>i j. i < j \<and> j < length retiredLog \<longrightarrow>
              retiredBefore (retiredLog ! i) (retiredLog ! j)"
    by (auto simp: retireLogOk_def sorted_wrt_iff_nth_less)
  moreover from h have "\<forall>f\<in>set retiredLog. \<exists>c. retired f = Some c \<and> allExecutedBefore c f"
    by (fastforce simp: retireLogOk_def)
  moreover from h have "\<forall>c. length (filter (\<lambda>f. retired f = Some c) retiredLog) \<le> nat (retireWidth cfg)"
    by (simp add: retireLogOk_def)
  ultimately show ?thesis by simp
qed

lemma ex_RB_run:
  "RB_run ex_cfg ex_cycles \<lparr>rb_uops = [], retireQueue = []\<rparr> []
     = (\<lparr>rb_uops = [ex_fused 3], retireQueue = []\<rparr>, ex_retiredLog)"
  by (simp add: ex_cycles_def ex_fused_def ex_retiredLog_def RB_cycle_def retireUops_def
      RB_addUops_def ex_cfg_def setExecuted_def allExecutedBefore_def noPossiblePorts_def
      ex_first_uop_def Let_def eval_nat_numeral)

theorem retirement_in_program_order_witness:
  "sorted_wrt (<) (map cyc_clock ex_cycles)
   \<and> RB_run ex_cfg ex_cycles \<lparr>rb_uops = [], retireQueue = []\<rparr> []
        = (\<lparr>rb_uops = [ex_fused 3], retireQueue = []\<rparr>, ex_retiredLog)
   \<and> map fusedUopId ex_retiredLog = [[1], [2]]
   \<and> retiredBefore (ex_retiredLog ! 0) (ex_retiredLog ! 1)
   \<and> length (filter (\<lambda>f. retired f = Some 4) ex_retiredLog) \<le> nat (retireWidth ex_cfg)"
proof -
  have h: "sorted_wrt (<) (map cyc_clock ex_cycles)"
    by (simp add: ex_cycles_def)
  have l: "length ex_retiredLog = 2"
    by (simp add: ex_retiredLog_def)
  have n: "map fusedUopId (concat (map cyc_newUops ex_cycles)) = [[1], [2], [3]]"
    by (simp add: ex_cycles_def ex_fused_def fusedUopId_def)
  from retirement_in_program_order [OF h ex_RB_run] l n
  have "map fusedUopId ex_retiredLog = [[1], [2]]"
    and "\<forall>i j. i < j \<and> j < 2 \<longrightarrow> retiredBefore (ex_retiredLog ! i) (ex_retiredLog ! j)"
    and "\<forall>c. length (filter (\<lambda>f. retired f = Some c) ex_retiredLog) \<le> nat (retireWidth ex_cfg)"
    by (simp_all add: eval_nat_numeral)
  then show ?thesis using h ex_RB_run by simp
qed

subsection \<open>The main loop\<close>

lemma mainLoop_unfold:
  "mainLoop f st = (if exitTest (mainLoop_body f st) then Some (mainLoop_body f st)
                    else mainLoop f (tick (mainLoop_body f st)))"
  by (subst mainLoop.simps) (simp add: Let_def)

lemma atTest_shift: "atTest f st (Suc n) = atTest f (tick (mainLoop_body f st)) n"
  by (induction n) simp_all

lemma mainLoop_reaches:
  "exitTest (atTest f st n) \<Longrightarrow>
   \<exists>m\<le>n. mainLoop f st = Some (atTest f st m) \<and> exitTest (atTest f st m)
          \<and> (\<forall>k<m. \<not> exitTest (atTest f st k))"
proof (induction n arbitrary: st)
  case 0
  then show ?case by (subst mainLoop_unfold) auto
next
  case (Suc n)
  show ?case
  proof (cases "exitTest (mainLoop_body f st)")
    case True
    then have "mainLoop f st = Some (atTest f st 0)"
      by (subst mainLoop_unfold) simp
    with True show ?thesis by (intro exI [of _ 0]) simp
  next
    case False
    let ?st = "tick (mainLoop_body f st)"
    from Suc.prems have "exitTest (atTest f ?st n)" by (simp only: atTest_shift)
    from Suc.IH [OF this] obtain m where m: "m \<le> n"
      "mainLoop f ?st = Some (atTest f ?st m)" "exitTest (atTest f ?st m)"
      "\<forall>k<m. \<not> exitTest (atTest f ?st k)" by blast
    have "mainLoop f st = Some (atTest f st (Suc m))"
      using False m(2) by (subst mainLoop_unfold) (simp only: atTest_shift if_False)
    moreover have "exitTest (atTest f st (Suc m))"
      using m(3) by (simp only: atTest_shift)
    moreover have "\<forall>k<Suc m. \<not> exitTest (atTest f st k)"
    proof (intro allI impI)
      fix k assume "k < Suc m"
      show "\<not> exitTest (atTest f st k)"
      proof (cases k)
        case 0
        with False show ?thesis by simp
      next
        case (Suc j)
        with \<open>k < Suc m\<close> m(4) show ?thesis by (simp only: atTest_shift) simp
      qed
    qed
    ultimately show ?thesis using m(1) by (intro exI [of _ "Suc m"]) simp
  qed
qed

lemma mainLoop_result:
  assumes "mainLoop f st = Some r"
  shows "\<exists>n. r = atTest f st n \<and> exitTest r \<and> (\<forall>k<n. \<not> exitTest (atTest f st k))"
  using assms
proof (induction rule: mainLoop.raw_induct [rotated 1, consumes 1, case_names step])
  case (step loop g st r)
  show ?case
  proof (cases "exitTest (mainLoop_body g st)")
    case True
    with step(2) have "r = atTest g st 0" by (simp add: Let_def)
    with True show ?thesis by (intro exI [of _ 0]) simp
  next
    case False
    let ?st = "tick (mainLoop_body g st)"
    from False step(2) have "loop g ?st = Some r" by (simp add: Let_def)
    from step(1) [OF this] obtain n where n: "r = atTest g ?st n" "exitTest r"
      "\<forall>k<n. \<not> exitTest (atTest g ?st k)" by blast
    have "\<forall>k<Suc n. \<not> exitTest (atTest g st k)"
    proof (intro allI impI)
      fix k assume "k < Suc n"
      show "\<not> exitTest (atTest g st k)"
      proof (cases k)
        case 0
        with False show ?thesis by simp
      next
        case (Suc j)
        with \<open>k < Suc n\<close> n(3) show ?thesis by (simp only: atTest_shift) simp
      qed
    qed
    moreover have "r = atTest g st (Suc n)" using n(1) by (simp only: atTest_shift)
    ultimately show ?thesis using n(2) by (intro exI [of _ "Suc n"]) simp
  qed
qed

lemma atTest_clock: "ml_clock (atTest f st n) = ml_clock st + int n"
  by (induction n) (simp_all add: mainLoop_body_def tick_def split: prod.splits)


text \<open>
  Claim C8. The loop returns exactly when the test of line 2281 (\<open>rnd \<ge> 10\<close> and
  \<open>clock > 500\<close>) holds in some pass; it is then left in the first pass in which the
  test holds, with \<open>rnd \<ge> 10\<close> and \<open>clock > 500\<close>. In pass \<open>n\<close> (counted from 0)
  the clock is its initial value plus \<open>n\<close>: every pass that does not leave the loop
  adds one. \<open>rnd\<close> is the round of the first unfused uop of the fused uop retired
  last.
\<close>

theorem mainLoop_exit:
  "(mainLoop frontEnd_cycle st \<noteq> None \<longleftrightarrow> (\<exists>n. exitTest (atTest frontEnd_cycle st n)))
   \<and> (\<forall>r. mainLoop frontEnd_cycle st = Some r \<longrightarrow>
          (\<exists>n. r = atTest frontEnd_cycle st n
               \<and> (\<forall>k<n. \<not> exitTest (atTest frontEnd_cycle st k))
               \<and> ml_clock r = ml_clock st + int n)
          \<and> 10 \<le> ml_rnd r \<and> 500 < ml_clock r)
   \<and> (\<forall>n. ml_clock (atTest frontEnd_cycle st n) = ml_clock st + int n)"
proof (intro conjI allI impI)
  show "mainLoop frontEnd_cycle st \<noteq> None \<longleftrightarrow> (\<exists>n. exitTest (atTest frontEnd_cycle st n))"
  proof
    assume "mainLoop frontEnd_cycle st \<noteq> None"
    then obtain r where "mainLoop frontEnd_cycle st = Some r" by blast
    from mainLoop_result [OF this] show "\<exists>n. exitTest (atTest frontEnd_cycle st n)" by blast
  next
    assume "\<exists>n. exitTest (atTest frontEnd_cycle st n)"
    then obtain n where "exitTest (atTest frontEnd_cycle st n)" ..
    from mainLoop_reaches [OF this] show "mainLoop frontEnd_cycle st \<noteq> None" by auto
  qed
next
  fix r assume r: "mainLoop frontEnd_cycle st = Some r"
  from mainLoop_result [OF r] obtain n where n: "r = atTest frontEnd_cycle st n" "exitTest r"
    "\<forall>k<n. \<not> exitTest (atTest frontEnd_cycle st k)" by blast
  from n(1) have "ml_clock r = ml_clock st + int n" by (simp add: atTest_clock)
  with n show "\<exists>n. r = atTest frontEnd_cycle st n
               \<and> (\<forall>k<n. \<not> exitTest (atTest frontEnd_cycle st k))
               \<and> ml_clock r = ml_clock st + int n" by blast
  from n(2) show "10 \<le> ml_rnd r" "500 < ml_clock r" by (simp_all add: exitTest_def)
next
  fix n show "ml_clock (atTest frontEnd_cycle st n) = ml_clock st + int n"
    by (rule atTest_clock)
qed

lemma ex_atTest:
  "atTest ex_frontEnd_cycle \<lparr>ml_sim = (), ml_clock = 0, ml_rnd = 0\<rparr> n
     = \<lparr>ml_sim = (), ml_clock = int n, ml_rnd = n div 40\<rparr>"
  by (induction n) (simp_all add: mainLoop_body_def tick_def ex_frontEnd_cycle_def)

theorem mainLoop_exit_witness:
  "exitTest (atTest ex_frontEnd_cycle \<lparr>ml_sim = (), ml_clock = 0, ml_rnd = 0\<rparr> 501)
   \<and> mainLoop ex_frontEnd_cycle \<lparr>ml_sim = (), ml_clock = 0, ml_rnd = 0\<rparr>
       = Some \<lparr>ml_sim = (), ml_clock = 501, ml_rnd = 12\<rparr>"
proof -
  let ?st = "\<lparr>ml_sim = (), ml_clock = 0, ml_rnd = 0 :: nat\<rparr>"
  have e: "exitTest (atTest ex_frontEnd_cycle ?st 501)"
    by (simp add: ex_atTest exitTest_def)
  note t = mainLoop_exit [of ex_frontEnd_cycle ?st]
  from t e obtain r where r: "mainLoop ex_frontEnd_cycle ?st = Some r" by blast
  with t obtain n where n: "r = atTest ex_frontEnd_cycle ?st n"
    "\<forall>k<n. \<not> exitTest (atTest ex_frontEnd_cycle ?st k)" "500 < ml_clock r" by blast
  from n(1,3) have "500 < n" by (simp add: ex_atTest)
  moreover from n(2) e have "\<not> 501 < n" by blast
  ultimately have "n = 501" by simp
  with n(1) r e show ?thesis by (simp add: ex_atTest)
qed

subsection \<open>Uop properties: first and last uop\<close>

lemma noFlags_mk [simp]:
  "\<not> isFirstUopOfInstr (mkUopProperties a b c d e f)"
  "\<not> isLastUopOfInstr (mkUopProperties a b c d e f)"
  by (simp_all add: mkUopProperties_def)

lemma noFlags_append [simp]: "noFlags (xs @ ys) \<longleftrightarrow> noFlags xs \<and> noFlags ys"
  by (auto simp: noFlags_def)

lemma noFlags_nonMemLoop: "noFlags dq \<Longrightarrow> noFlags (nonMemLoop r pcs dq)"
  by (induction r pcs dq rule: nonMemLoop.induct) (auto simp: noFlags_def)

lemma noFlags_portUopProps: "noFlags (portUopProps li i)"
proof -
  have "noFlags (loadUopProps i pcs)" for pcs
    by (auto simp: noFlags_def loadUopProps_def)
  moreover have "noFlags (storeUopProps i a d)" for a d
    by (auto simp: noFlags_def storeUopProps_def)
  moreover have "noFlags (nonMemUopProps li i pcs)" for pcs
    by (cases pcs) (auto simp: nonMemUopProps_def intro!: noFlags_nonMemLoop, auto simp: noFlags_def)
  ultimately show ?thesis by (simp add: portUopProps_def Let_def)
qed

lemma flags_after_update:
  assumes "noFlags l1" and "l1 \<noteq> []"
  defines "l2 \<equiv> l1[0 := (l1 ! 0)\<lparr>isFirstUopOfInstr := True\<rparr>]"
  defines "l3 \<equiv> l2[length l2 - 1 := (l2 ! (length l2 - 1))\<lparr>isLastUopOfInstr := True\<rparr>]"
  shows "length l3 = length l1"
    and "\<forall>k<length l3. isFirstUopOfInstr (l3 ! k) \<longleftrightarrow> k = 0"
    and "\<forall>k<length l3. isLastUopOfInstr (l3 ! k) \<longleftrightarrow> k = length l3 - 1"
    and "\<forall>k<length l3. possiblePorts (l3 ! k) = possiblePorts (l1 ! k)"
proof -
  show len: "length l3 = length l1" by (simp add: l3_def l2_def)
  have nf: "\<And>k. k < length l1 \<Longrightarrow> \<not> isFirstUopOfInstr (l1 ! k) \<and> \<not> isLastUopOfInstr (l1 ! k)"
    using assms(1) by (auto simp: noFlags_def)
  have pos: "0 < length l1" using assms(2) by simp
  show "\<forall>k<length l3. isFirstUopOfInstr (l3 ! k) \<longleftrightarrow> k = 0"
    using nf pos by (auto simp: l3_def l2_def nth_list_update)
  show "\<forall>k<length l3. isLastUopOfInstr (l3 ! k) \<longleftrightarrow> k = length l3 - 1"
    using nf pos by (auto simp: l3_def l2_def nth_list_update)
  show "\<forall>k<length l3. possiblePorts (l3 ! k) = possiblePorts (l1 ! k)"
  proof (intro allI impI)
    fix k assume "k < length l3"
    then have k: "k < length l1" using len by simp
    show "possiblePorts (l3 ! k) = possiblePorts (l1 ! k)"
    proof (cases "k = 0")
      case True
      with pos show ?thesis by (simp add: l3_def l2_def nth_list_update)
    next
      case False
      with k show ?thesis by (simp add: l3_def l2_def nth_list_update)
    qed
  qed
qed


lemma computeUopProperties_instr_ok:
  fixes li :: LatencyInfo and i :: Instr
  assumes "\<not> macroFusedWithPrevInstr i"
  defines "l0 \<equiv> portUopProps li i"
  defines "l1 \<equiv> l0 @ replicate (nat (retireSlots i - int (length l0)))
                         (mkUopProperties None 0 False False None False)"
  shows "(l1 = [] \<longrightarrow> computeUopProperties_instr li i = Inl IndexError)"
    and "(l1 \<noteq> [] \<longrightarrow> (\<exists>i'. computeUopProperties_instr li i = Inr i'))"
    and "computeUopProperties_instr li i = Inr i' \<Longrightarrow>
           l1 \<noteq> []
         \<and> length (UopPropertiesList i') = max (length l0) (nat (retireSlots i))
         \<and> (\<forall>j<length (UopPropertiesList i'). isFirstUopOfInstr (UopPropertiesList i' ! j) \<longleftrightarrow> j = 0)
         \<and> (\<forall>j<length (UopPropertiesList i').
               isLastUopOfInstr (UopPropertiesList i' ! j) \<longleftrightarrow> j = length (UopPropertiesList i') - 1)
         \<and> (\<forall>j<length (UopPropertiesList i'). length l0 \<le> j \<longrightarrow>
               possiblePorts (UopPropertiesList i' ! j) = None)"
proof -
  define l2 where "l2 = l1[0 := (l1 ! 0)\<lparr>isFirstUopOfInstr := True\<rparr>]"
  define l3 where "l3 = l2[length l2 - 1 := (l2 ! (length l2 - 1))\<lparr>isLastUopOfInstr := True\<rparr>]"
  have eq: "computeUopProperties_instr li i
      = (if l1 = [] then Inl IndexError else Inr (i\<lparr>UopPropertiesList := l3\<rparr>))"
    unfolding computeUopProperties_instr_def Let_def l3_def l2_def l1_def l0_def
    by (simp only: assms(1) if_False)
  show "l1 = [] \<longrightarrow> computeUopProperties_instr li i = Inl IndexError"
    by (simp add: eq)
  show "l1 \<noteq> [] \<longrightarrow> (\<exists>i'. computeUopProperties_instr li i = Inr i')"
    by (simp add: eq)
  assume r: "computeUopProperties_instr li i = Inr i'"
  have ne: "l1 \<noteq> []"
    using r by (auto simp: eq split: if_splits)
  have l: "UopPropertiesList i' = l3"
    using r ne by (auto simp: eq)
  have nf: "noFlags l1"
    by (auto simp: l1_def l0_def noFlags_portUopProps) (simp add: noFlags_def)
  note f = flags_after_update [OF nf ne, folded l2_def, folded l3_def]
  have len: "length l1 = max (length l0) (nat (retireSlots i))"
    by (auto simp: l1_def)
  have pad: "\<forall>j<length l1. length l0 \<le> j \<longrightarrow> possiblePorts (l1 ! j) = None"
    by (auto simp: l1_def nth_append mkUopProperties_def)
  show "l1 \<noteq> []
         \<and> length (UopPropertiesList i') = max (length l0) (nat (retireSlots i))
         \<and> (\<forall>j<length (UopPropertiesList i'). isFirstUopOfInstr (UopPropertiesList i' ! j) \<longleftrightarrow> j = 0)
         \<and> (\<forall>j<length (UopPropertiesList i').
               isLastUopOfInstr (UopPropertiesList i' ! j) \<longleftrightarrow> j = length (UopPropertiesList i') - 1)
         \<and> (\<forall>j<length (UopPropertiesList i'). length l0 \<le> j \<longrightarrow>
               possiblePorts (UopPropertiesList i' ! j) = None)"
    unfolding l using ne f len pad by simp
qed

lemma computeUopProperties_nth:
  "computeUopProperties latInfo instructions = Inr instructions' \<Longrightarrow>
   length instructions' = length instructions
   \<and> (\<forall>k<length instructions.
          computeUopProperties_instr (latInfo (instructions ! k)) (instructions ! k)
            = Inr (instructions' ! k))"
proof (induction instructions arbitrary: instructions')
  case Nil
  then show ?case by simp
next
  case (Cons i instructions)
  from Cons.prems obtain i' rest where
    i': "computeUopProperties_instr (latInfo i) i = Inr i'"
    and rest: "computeUopProperties latInfo instructions = Inr rest"
    and res: "instructions' = i' # rest"
    by (auto split: sum.splits)
  from Cons.IH [OF rest] i' res show ?case
    by (auto simp: nth_Cons split: nat.splits)
qed

lemma computeUopProperties_total:
  "(\<forall>i\<in>set instructions. \<exists>i'. computeUopProperties_instr (latInfo i) i = Inr i') \<Longrightarrow>
   \<exists>instructions'. computeUopProperties latInfo instructions = Inr instructions'"
  by (induction instructions) auto


text \<open>
  Claim C10. \<open>computeUopProperties\<close> returns for every list of instructions in which
  each instruction is macro-fused with its predecessor or has at least one retire slot
  (with no retire slot and no uop from the port data, line 1487 raises \<open>IndexError\<close>).
  When it returns, the list of uop properties of every instruction that is not
  macro-fused with its predecessor
  \<^item> has at least \<open>retireSlots\<close> entries and is not empty: it has as many entries as
    the port data give uops, or \<open>retireSlots\<close> if that is more, and the entries
    beyond those from the port data have no ports (\<open>possiblePorts\<close> is \<open>None\<close>);
  \<^item> has \<open>isFirstUopOfInstr\<close> set in its first entry and in no other;
  \<^item> has \<open>isLastUopOfInstr\<close> set in its last entry and in no other.
\<close>

theorem computeUopProperties_flags:
  "((\<forall>i\<in>set instructions. macroFusedWithPrevInstr i \<or> 1 \<le> retireSlots i) \<longrightarrow>
      (\<exists>instructions'. computeUopProperties latInfo instructions = Inr instructions'))
   \<and> (\<forall>instructions' k.
         computeUopProperties latInfo instructions = Inr instructions'
         \<and> k < length instructions \<and> \<not> macroFusedWithPrevInstr (instructions ! k) \<longrightarrow>
         (let l = UopPropertiesList (instructions' ! k);
              l0 = portUopProps (latInfo (instructions ! k)) (instructions ! k)
          in retireSlots (instructions ! k) \<le> int (length l) \<and> l \<noteq> []
             \<and> length l = max (length l0) (nat (retireSlots (instructions ! k)))
             \<and> (\<forall>j<length l. isFirstUopOfInstr (l ! j) \<longleftrightarrow> j = 0)
             \<and> (\<forall>j<length l. isLastUopOfInstr (l ! j) \<longleftrightarrow> j = length l - 1)
             \<and> (\<forall>j<length l. length l0 \<le> j \<longrightarrow> possiblePorts (l ! j) = None)))"
proof (intro conjI allI impI)
  assume a: "\<forall>i\<in>set instructions. macroFusedWithPrevInstr i \<or> 1 \<le> retireSlots i"
  have "\<exists>i'. computeUopProperties_instr (latInfo i) i = Inr i'" if "i \<in> set instructions" for i
  proof (cases "macroFusedWithPrevInstr i")
    case True
    then show ?thesis by (simp add: computeUopProperties_instr_def)
  next
    case False
    with a that have "1 \<le> retireSlots i" by blast
    then have "portUopProps (latInfo i) i @ replicate (nat (retireSlots i
        - int (length (portUopProps (latInfo i) i)))) (mkUopProperties None 0 False False None False) \<noteq> []"
      by (cases "portUopProps (latInfo i) i") auto
    with computeUopProperties_instr_ok(2) [OF False] show ?thesis by blast
  qed
  then show "\<exists>instructions'. computeUopProperties latInfo instructions = Inr instructions'"
    by (intro computeUopProperties_total) blast
next
  fix instructions' k
  assume "computeUopProperties latInfo instructions = Inr instructions'
         \<and> k < length instructions \<and> \<not> macroFusedWithPrevInstr (instructions ! k)"
  then have c: "computeUopProperties latInfo instructions = Inr instructions'"
    and k: "k < length instructions" and m: "\<not> macroFusedWithPrevInstr (instructions ! k)"
    by blast+
  from computeUopProperties_nth [OF c] k
  have "computeUopProperties_instr (latInfo (instructions ! k)) (instructions ! k)
          = Inr (instructions' ! k)" by blast
  from computeUopProperties_instr_ok(3) [OF m this]
  show "let l = UopPropertiesList (instructions' ! k);
              l0 = portUopProps (latInfo (instructions ! k)) (instructions ! k)
          in retireSlots (instructions ! k) \<le> int (length l) \<and> l \<noteq> []
             \<and> length l = max (length l0) (nat (retireSlots (instructions ! k)))
             \<and> (\<forall>j<length l. isFirstUopOfInstr (l ! j) \<longleftrightarrow> j = 0)
             \<and> (\<forall>j<length l. isLastUopOfInstr (l ! j) \<longleftrightarrow> j = length l - 1)
             \<and> (\<forall>j<length l. length l0 \<le> j \<longrightarrow> possiblePorts (l ! j) = None)"
    by (auto simp: Let_def)
qed

lemma ex_portUopProps:
  "portUopProps (ex_latInfo ex_add_mem) ex_add_mem =
     [mkUopProperties (Some [''2'', ''3'']) 0 True False
         (Some \<lparr>base = Some ''RBX'', index = None, scale = 1, displacement = 0\<rparr>) False,
      mkUopProperties (Some [''0'', ''1'', ''5'', ''6'']) 0 False False None False]"
  by (simp add: portUopProps_def ex_add_mem_def UnknownInstr_def anyIn_def loadUopProps_def
      nonMemUopProps_def storeUopProps_def memAddrAt_def ex_latInfo_def Let_def)

lemma ex_computeUopProperties:
  "computeUopProperties ex_latInfo [ex_add_mem, UnknownInstr ''ud2'' ''0F0B'' 1]
     = Inr [ex_add_mem\<lparr>UopPropertiesList := ex_add_mem_props\<rparr>,
            (UnknownInstr ''ud2'' ''0F0B'' 1)
              \<lparr>UopPropertiesList := [(mkUopProperties None 0 False False None False)
                   \<lparr>isFirstUopOfInstr := True, isLastUopOfInstr := True\<rparr>]\<rparr>]"
proof -
  have m: "\<not> macroFusedWithPrevInstr ex_add_mem" "retireSlots ex_add_mem = 1"
    by (simp_all add: ex_add_mem_def UnknownInstr_def)
  have a: "computeUopProperties_instr (ex_latInfo ex_add_mem) ex_add_mem
      = Inr (ex_add_mem\<lparr>UopPropertiesList := ex_add_mem_props\<rparr>)"
    by (simp add: computeUopProperties_instr_def ex_portUopProps m ex_add_mem_props_def Let_def)
  have u: "portUopProps li (UnknownInstr x y z) = []" for li x y z
    by (simp add: portUopProps_def UnknownInstr_def loadUopProps_def nonMemUopProps_def
        storeUopProps_def Let_def)
  have b: "computeUopProperties_instr li (UnknownInstr ''ud2'' ''0F0B'' 1)
      = Inr ((UnknownInstr ''ud2'' ''0F0B'' 1)
              \<lparr>UopPropertiesList := [(mkUopProperties None 0 False False None False)
                   \<lparr>isFirstUopOfInstr := True, isLastUopOfInstr := True\<rparr>]\<rparr>)" for li
    by (simp add: computeUopProperties_instr_def u Let_def) (simp add: UnknownInstr_def)
  show ?thesis by (simp add: a b)
qed

theorem computeUopProperties_flags_witness:
  "computeUopProperties ex_latInfo [ex_add_mem, UnknownInstr ''ud2'' ''0F0B'' 1]
     = Inr [ex_add_mem\<lparr>UopPropertiesList := ex_add_mem_props\<rparr>,
            (UnknownInstr ''ud2'' ''0F0B'' 1)
              \<lparr>UopPropertiesList := [(mkUopProperties None 0 False False None False)
                   \<lparr>isFirstUopOfInstr := True, isLastUopOfInstr := True\<rparr>]\<rparr>]
   \<and> \<not> macroFusedWithPrevInstr ex_add_mem \<and> retireSlots ex_add_mem = 1
   \<and> length ex_add_mem_props = 2
   \<and> isFirstUopOfInstr (ex_add_mem_props ! 0) \<and> \<not> isFirstUopOfInstr (ex_add_mem_props ! 1)
   \<and> \<not> isLastUopOfInstr (ex_add_mem_props ! 0) \<and> isLastUopOfInstr (ex_add_mem_props ! 1)"
proof -
  have m: "\<not> macroFusedWithPrevInstr ex_add_mem" "retireSlots ex_add_mem = 1"
    by (simp_all add: ex_add_mem_def UnknownInstr_def)
  have l: "length (portUopProps (ex_latInfo ex_add_mem) ex_add_mem) = 2"
    by (simp add: ex_portUopProps)
  have p: "computeUopProperties ex_latInfo [ex_add_mem, UnknownInstr ''ud2'' ''0F0B'' 1]
        = Inr [ex_add_mem\<lparr>UopPropertiesList := ex_add_mem_props\<rparr>,
            (UnknownInstr ''ud2'' ''0F0B'' 1)
              \<lparr>UopPropertiesList := [(mkUopProperties None 0 False False None False)
                   \<lparr>isFirstUopOfInstr := True, isLastUopOfInstr := True\<rparr>]\<rparr>]
      \<and> 0 < length [ex_add_mem, UnknownInstr ''ud2'' ''0F0B'' 1]
      \<and> \<not> macroFusedWithPrevInstr ([ex_add_mem, UnknownInstr ''ud2'' ''0F0B'' 1] ! 0)"
    using ex_computeUopProperties m by simp
  note t = computeUopProperties_flags [of "[ex_add_mem, UnknownInstr ''ud2'' ''0F0B'' 1]" ex_latInfo,
      THEN conjunct2, rule_format, OF p]
  from t l m have "length ex_add_mem_props = 2"
    and "\<forall>j<2. isFirstUopOfInstr (ex_add_mem_props ! j) \<longleftrightarrow> j = 0"
    and "\<forall>j<2. isLastUopOfInstr (ex_add_mem_props ! j) \<longleftrightarrow> j = 1"
    by (simp_all add: Let_def)
  then show ?thesis using ex_computeUopProperties m by simp
qed

subsection \<open>Unknown instructions\<close>
















subsection \<open>Scheduler: paired stores\<close>

lemma dispatchLoop_other_port:
  "dispatchLoop clock ports self disp = Inr (self', disp') \<Longrightarrow> p \<notin> set ports \<Longrightarrow>
   readyQueue self' p = readyQueue self p"
proof (induction ports arbitrary: self disp)
  case Nil
  then show ?case by simp
next
  case (Cons q ports)
  let ?queue = "if useDivQueue self q then readyDivUops self else readyQueue self q"
  show ?case
  proof (cases ?queue)
    case Nil
    with Cons.prems have "dispatchLoop clock ports self disp = Inr (self', disp')"
      by (simp add: Let_def)
    from Cons.IH [OF this] Cons.prems(2) show ?thesis by simp
  next
    case (Cons u rest)
    let ?u' = "u\<lparr>dispatched := Some clock\<rparr>"
    let ?s1 = "if useDivQueue self q then self\<lparr>readyDivUops := rest\<rparr>
               else self\<lparr>readyQueue := (readyQueue self)(q := rest)\<rparr>"
    let ?s2 = "?s1\<lparr>divBusy := divBusy self + prop_divCycles u, rs_uops := rs_uops self - {idx u},
                    pendingUops := insert ?u' (pendingUops self)\<rparr>"
    from Cons.prems(1) Cons have "dispatchLoop clock ports ?s2 (disp @ [?u']) = Inr (self', disp')"
      by (simp add: Let_def split: if_splits)
    from Cons.IH [OF this] Cons.prems(2) have "readyQueue self' p = readyQueue ?s2 p" by simp
    also have "\<dots> = readyQueue self p" using Cons.prems(2) by simp
    finally show ?thesis .
  qed
qed

lemma dispatchLoop_pops:
  assumes "dispatchLoop clock ports self disp = Inr (self', disp')"
    and "p \<in> set ports" and "distinct ports" and "p \<noteq> ''0''"
    and "readyQueue self p = u # rest"
  shows "readyQueue self' p = rest \<and> u\<lparr>dispatched := Some clock\<rparr> \<in> set disp'"
  using assms
proof (induction ports arbitrary: self disp)
  case Nil
  then show ?case by simp
next
  case (Cons q ports)
  show ?case
  proof (cases "q = p")
    case True
    have nd: "\<not> useDivQueue self p" using Cons.prems(4) by (simp add: useDivQueue_def)
    let ?u' = "u\<lparr>dispatched := Some clock\<rparr>"
    let ?s2 = "self\<lparr>readyQueue := (readyQueue self)(p := rest),
                    divBusy := divBusy self + prop_divCycles u, rs_uops := rs_uops self - {idx u},
                    pendingUops := insert ?u' (pendingUops self)\<rparr>"
    from Cons.prems(1,5) True nd
    have l: "dispatchLoop clock ports ?s2 (disp @ [?u']) = Inr (self', disp')"
      by (simp add: Let_def split: if_splits)
    have "p \<notin> set ports" using Cons.prems(3) True by simp
    from dispatchLoop_other_port [OF l this] have "readyQueue self' p = rest" by simp
    moreover have "?u' \<in> set disp'"
    proof -
      have "dispatchLoop clock ps s d = Inr (s', d') \<Longrightarrow> set d \<subseteq> set d'" for ps s d s' d'
      proof (induction ps arbitrary: s d)
        case Nil
        then show ?case by simp
      next
        case (Cons a ps)
        then show ?case
          by (fastforce simp: Let_def split: list.splits if_splits)
      qed
      from this [OF l] show ?thesis by auto
    qed
    ultimately show ?thesis by simp
  next
    case False
    with Cons.prems have p: "p \<in> set ports" and d: "distinct ports" by auto
    let ?queue = "if useDivQueue self q then readyDivUops self else readyQueue self q"
    show ?thesis
    proof (cases ?queue)
      case Nil
      with Cons.prems(1) have "dispatchLoop clock ports self disp = Inr (self', disp')"
        by (simp add: Let_def)
      from Cons.IH [OF this p d Cons.prems(4,5)] show ?thesis .
    next
      case (Cons v vs)
      let ?v' = "v\<lparr>dispatched := Some clock\<rparr>"
      let ?s1 = "if useDivQueue self q then self\<lparr>readyDivUops := vs\<rparr>
               else self\<lparr>readyQueue := (readyQueue self)(q := vs)\<rparr>"
      let ?s2 = "?s1\<lparr>divBusy := divBusy self + prop_divCycles v, rs_uops := rs_uops self - {idx v},
                    pendingUops := insert ?v' (pendingUops self)\<rparr>"
      from Cons.prems(1) Cons have l: "dispatchLoop clock ports ?s2 (disp @ [?v']) = Inr (self', disp')"
        by (simp add: Let_def split: if_splits)
      have "readyQueue ?s2 p = u # rest" using False Cons.prems(5) by simp
      from Cons.IH [OF l p d Cons.prems(4) this] show ?thesis .
    qed
  qed
qed


lemma dispatchLoop_empty:
  "dispatchLoop clock ports self disp = Inr (self', disp') \<Longrightarrow> readyQueue self p = [] \<Longrightarrow>
   readyQueue self' p = []"
proof (induction ports arbitrary: self disp)
  case Nil
  then show ?case by simp
next
  case (Cons q ports)
  let ?queue = "if useDivQueue self q then readyDivUops self else readyQueue self q"
  show ?case
  proof (cases ?queue)
    case Nil
    with Cons.prems have "dispatchLoop clock ports self disp = Inr (self', disp')"
      by (simp add: Let_def)
    from Cons.IH [OF this Cons.prems(2)] show ?thesis .
  next
    case (Cons u rest)
    let ?u' = "u\<lparr>dispatched := Some clock\<rparr>"
    let ?s1 = "if useDivQueue self q then self\<lparr>readyDivUops := rest\<rparr>
               else self\<lparr>readyQueue := (readyQueue self)(q := rest)\<rparr>"
    let ?s2 = "?s1\<lparr>divBusy := divBusy self + prop_divCycles u, rs_uops := rs_uops self - {idx u},
                    pendingUops := insert ?u' (pendingUops self)\<rparr>"
    from Cons.prems(1) Cons have l: "dispatchLoop clock ports ?s2 (disp @ [?u']) = Inr (self', disp')"
      by (simp add: Let_def split: if_splits)
    have "readyQueue ?s2 p = []"
      using Cons Cons.prems(2) by (auto split: if_splits)
    from Cons.IH [OF l this] show ?thesis .
  qed
qed

lemma applicablePorts_subset:
  "applicablePorts cfg self = Inr ports \<Longrightarrow> set ports \<subseteq> set (allPorts cfg)"
  by (auto simp: applicablePorts_def split: list.splits option.splits if_splits
      dest: set_remove1_subset [THEN subsetD])

lemma headFingerprint_Some:
  "headFingerprint queue = Some a \<longleftrightarrow>
     (\<exists>u rest sb. queue = u # rest \<and> storeBufferEntry u = Some sb \<and> abstractAddress sb = Some a)"
  by (auto simp: headFingerprint_def split: list.splits option.splits)

lemma applicablePorts_paired:
  assumes "''4'' \<in> set (allPorts cfg)" and "''9'' \<in> set (allPorts cfg)"
    and "readyQueue self ''4'' = uop4 # rest4" and "readyQueue self ''9'' = uop9 # rest9"
    and "headFingerprint (readyQueue self ''4'') = Some addr4"
    and "headFingerprint (readyQueue self ''9'') = Some addr9"
    and "differentCacheLine addr4 addr9"
  shows "applicablePorts cfg self
           = Inr (remove1 (if idx uop4 \<le> idx uop9 then ''9'' else ''4'') (allPorts cfg))"
  using assms
  by (auto simp: applicablePorts_def headFingerprint_Some)

text \<open>
  Claim C1. Let the port labels of the configuration be distinct and let
  \<open>dispatchUops\<close> return. If ports 4 and 9 are ports of the configuration, both their
  heaps have a first uop, both these uops have a fingerprint that is not \<open>None\<close>, and
  the fingerprints indicate different cache lines (base, index or scale differ, or the
  displacements differ by at least 64), then the one of the two uops with the smaller
  index is dispatched (it leaves its heap and is in the list of the dispatched uops)
  and the heap of the other port is unchanged: the other uop is not dispatched in this
  cycle. Consequently, whenever uops leave both the heap of port 4 and the heap of
  port 9 in one call, the fingerprints of the two, if both are not \<open>None\<close>, do not
  indicate different cache lines: base, index and scale agree and the displacements
  differ by less than 64.
\<close>

theorem paired_store_dispatch:
  assumes "distinct (allPorts cfg)" and "dispatchUops cfg clock self = Inr self'"
  shows "(\<forall>uop4 rest4 uop9 rest9 addr4 addr9.
            ''4'' \<in> set (allPorts cfg) \<and> ''9'' \<in> set (allPorts cfg)
            \<and> readyQueue self ''4'' = uop4 # rest4 \<and> readyQueue self ''9'' = uop9 # rest9
            \<and> headFingerprint (readyQueue self ''4'') = Some addr4
            \<and> headFingerprint (readyQueue self ''9'') = Some addr9
            \<and> differentCacheLine addr4 addr9 \<longrightarrow>
            (if idx uop4 \<le> idx uop9
             then readyQueue self' ''4'' = rest4 \<and> readyQueue self' ''9'' = uop9 # rest9
                  \<and> uop4\<lparr>dispatched := Some clock\<rparr> \<in> set (uopsDispatchedInPrevCycle self')
             else readyQueue self' ''9'' = rest9 \<and> readyQueue self' ''4'' = uop4 # rest4
                  \<and> uop9\<lparr>dispatched := Some clock\<rparr> \<in> set (uopsDispatchedInPrevCycle self')))
       \<and> (readyQueue self' ''4'' \<noteq> readyQueue self ''4''
          \<and> readyQueue self' ''9'' \<noteq> readyQueue self ''9'' \<longrightarrow>
            (\<forall>addr4 addr9. headFingerprint (readyQueue self ''4'') = Some addr4
                \<and> headFingerprint (readyQueue self ''9'') = Some addr9 \<longrightarrow>
                \<not> differentCacheLine addr4 addr9))"
proof -
  from assms(2) obtain ports s1 disp where
    ap: "applicablePorts cfg self = Inr ports"
    and dl: "dispatchLoop clock ports self [] = Inr (s1, disp)"
    and rq: "readyQueue self' = readyQueue s1"
    and ud: "uopsDispatchedInPrevCycle self' = disp"
    by (auto simp: dispatchUops_def split: sum.splits prod.splits)
  have part1: "if idx uop4 \<le> idx uop9
             then readyQueue self' ''4'' = rest4 \<and> readyQueue self' ''9'' = uop9 # rest9
                  \<and> uop4\<lparr>dispatched := Some clock\<rparr> \<in> set (uopsDispatchedInPrevCycle self')
             else readyQueue self' ''9'' = rest9 \<and> readyQueue self' ''4'' = uop4 # rest4
                  \<and> uop9\<lparr>dispatched := Some clock\<rparr> \<in> set (uopsDispatchedInPrevCycle self')"
    if h: "''4'' \<in> set (allPorts cfg)" "''9'' \<in> set (allPorts cfg)"
      "readyQueue self ''4'' = uop4 # rest4" "readyQueue self ''9'' = uop9 # rest9"
      "headFingerprint (readyQueue self ''4'') = Some addr4"
      "headFingerprint (readyQueue self ''9'') = Some addr9"
      "differentCacheLine addr4 addr9"
    for uop4 rest4 uop9 rest9 addr4 addr9
  proof (cases "idx uop4 \<le> idx uop9")
    case True
    from applicablePorts_paired [OF h] ap True have p: "ports = remove1 ''9'' (allPorts cfg)"
      by simp
    have "''9'' \<notin> set ports" "''4'' \<in> set ports" "distinct ports"
      using p assms(1) h(1) by simp_all
    from dispatchLoop_other_port [OF dl this(1)] dispatchLoop_pops [OF dl this(2,3) _ h(3)]
    show ?thesis using True rq ud h(4) by simp
  next
    case False
    from applicablePorts_paired [OF h] ap False have p: "ports = remove1 ''4'' (allPorts cfg)"
      by simp
    have "''4'' \<notin> set ports" "''9'' \<in> set ports" "distinct ports"
      using p assms(1) h(2) by simp_all
    from dispatchLoop_other_port [OF dl this(1)] dispatchLoop_pops [OF dl this(2,3) _ h(4)]
    show ?thesis using False rq ud h(3) by simp
  qed
  have part2: "\<not> differentCacheLine addr4 addr9"
    if c: "readyQueue self' ''4'' \<noteq> readyQueue self ''4''"
      "readyQueue self' ''9'' \<noteq> readyQueue self ''9''"
      and f: "headFingerprint (readyQueue self ''4'') = Some addr4"
      "headFingerprint (readyQueue self ''9'') = Some addr9"
    for addr4 addr9
  proof
    assume d: "differentCacheLine addr4 addr9"
    from c rq dispatchLoop_other_port [OF dl] have in_ports: "''4'' \<in> set ports" "''9'' \<in> set ports"
      by auto
    with applicablePorts_subset [OF ap] have a: "''4'' \<in> set (allPorts cfg)" "''9'' \<in> set (allPorts cfg)"
      by auto
    from f obtain uop4 rest4 uop9 rest9 where q: "readyQueue self ''4'' = uop4 # rest4"
      "readyQueue self ''9'' = uop9 # rest9"
      by (auto simp: headFingerprint_Some)
    from applicablePorts_paired [OF a q f d] ap
    have "ports = remove1 (if idx uop4 \<le> idx uop9 then ''9'' else ''4'') (allPorts cfg)" by simp
    with assms(1) in_ports show False by (auto split: if_splits)
  qed
  from part1 part2 show ?thesis by blast
qed


lemma ex_dispatchUops: "\<exists>self'. dispatchUops ex_cfg10 7 ex_sched = Inr self'"
  by (simp add: dispatchUops_def applicablePorts_def ex_cfg10_def ex_cfg_def ex_sched_def
      ex_store_def useDivQueue_def Let_def)

theorem paired_store_dispatch_witness:
  "distinct (allPorts ex_cfg10)
   \<and> ''4'' \<in> set (allPorts ex_cfg10) \<and> ''9'' \<in> set (allPorts ex_cfg10)
   \<and> readyQueue ex_sched ''4'' = [ex_store 3 ''4'' 0]
   \<and> readyQueue ex_sched ''9'' = [ex_store 5 ''9'' 64]
   \<and> headFingerprint (readyQueue ex_sched ''4'') = Some (1, 0, 1, 0)
   \<and> headFingerprint (readyQueue ex_sched ''9'') = Some (1, 0, 1, 64)
   \<and> differentCacheLine (1, 0, 1, 0) (1, 0, 1, 64)
   \<and> (\<exists>self'. dispatchUops ex_cfg10 7 ex_sched = Inr self'
         \<and> readyQueue self' ''4'' = [] \<and> readyQueue self' ''9'' = [ex_store 5 ''9'' 64]
         \<and> (ex_store 3 ''4'' 0)\<lparr>dispatched := Some 7\<rparr> \<in> set (uopsDispatchedInPrevCycle self'))"
proof -
  have d: "distinct (allPorts ex_cfg10)"
    "''4'' \<in> set (allPorts ex_cfg10)" "''9'' \<in> set (allPorts ex_cfg10)"
    by (simp_all add: ex_cfg10_def ex_cfg_def)
  have q: "readyQueue ex_sched ''4'' = [ex_store 3 ''4'' 0]"
    "readyQueue ex_sched ''9'' = [ex_store 5 ''9'' 64]"
    by (simp_all add: ex_sched_def)
  have f: "headFingerprint (readyQueue ex_sched ''4'') = Some (1, 0, 1, 0)"
    "headFingerprint (readyQueue ex_sched ''9'') = Some (1, 0, 1, 64)"
    by (simp_all add: q headFingerprint_def ex_store_def)
  have c: "differentCacheLine (1, 0, 1, 0) (1, 0, 1, 64)" by simp
  have i: "idx (ex_store 3 ''4'' 0) \<le> idx (ex_store 5 ''9'' 64)"
    by (simp add: ex_store_def)
  from ex_dispatchUops obtain self' where s: "dispatchUops ex_cfg10 7 ex_sched = Inr self'" ..
  from paired_store_dispatch [OF d(1) s, THEN conjunct1, rule_format,
      of "ex_store 3 ''4'' 0" "[]" "ex_store 5 ''9'' 64" "[]" "(1, 0, 1, 0)" "(1, 0, 1, 64)"]
    d q f c i
  have "readyQueue self' ''4'' = [] \<and> readyQueue self' ''9'' = [ex_store 5 ''9'' 64]
         \<and> (ex_store 3 ''4'' 0)\<lparr>dispatched := Some 7\<rparr> \<in> set (uopsDispatchedInPrevCycle self')"
    by simp
  with s d q f c show ?thesis by blast
qed

subsection \<open>Predecoder: the instruction that crosses the 16-byte boundary\<close>

lemma stall_sum:
  "(\<Sum>ii \<leftarrow> filter (\<lambda>ii. lcpStall (ii_instr ii)) q. (3::int)) = 0
     \<longleftrightarrow> \<not> list_ex (\<lambda>ii. lcpStall (ii_instr ii)) q"
proof (induction q)
  case Nil
  show ?case by simp
next
  case (Cons a q)
  have "0 \<le> (\<Sum>ii \<leftarrow> filter (\<lambda>ii. lcpStall (ii_instr ii)) q. (3::int))"
    by (rule sum_list_nonneg) auto
  with Cons show ?case by auto
qed

text \<open>
  Claim C5, as the code has it. Let the predecoder start a new group in this cycle (it
  is not stalled, \<open>preDecQueue\<close> is empty, the instruction queue has room), and let
  the loop that queues the instructions of the current block (after the partial
  instruction of the previous cycle, if any) leave exactly one instruction \<open>instrI\<close>
  in the block, which crosses the 16-byte boundary; \<open>queue\<close> holds the instructions
  predecoded in this cycle. Then \<open>instrI\<close> is not among the instructions predecoded
  in this cycle: exactly the instructions of \<open>queue\<close> enter the instruction queue
  (or wait in \<open>preDecQueue\<close> when one of them has a length-changing prefix).
  \<open>instrI\<close> leaves the block and becomes the partial instruction, and the block is
  finished, exactly when fewer than 5 instructions are in \<open>queue\<close> or the nominal
  opcode of \<open>instrI\<close> lies in the next block; otherwise (at least 5 instructions and
  the nominal opcode in the current block) it stays in its block, which stays first
  in the queue of blocks.
\<close>

theorem boundary_instruction:
  fixes cfg :: MicroArchConfig and clock :: int and self :: PreDecoder
  assumes "pd_stalled self = 0" and "preDecQueue self = []"
    and "int (length (instructionQueue self)) + preDecodeWidth cfg \<le> IQWidth cfg"
    and "B16BlockQueue self = curBlock # blocks"
    and "fillPreDecQueue (preDecodeWidth cfg) curBlock
           (case partialInstrI self of None \<Rightarrow> [] | Some p \<Rightarrow> [p]) = ([instrI], queue)"
    and "instrInstanceCrosses16ByteBoundary instrI"
  defines "self' \<equiv> PreDecoder_cycle cfg clock self"
  defines "taken \<equiv> int (length queue) < 5
                    \<or> (address instrI mod 16) + posNominalOpcode (ii_instr instrI) \<ge> 16"
  shows "(if taken then partialInstrI self' = Some instrI \<and> B16BlockQueue self' = blocks
          else partialInstrI self' = None \<and> B16BlockQueue self' = [instrI] # blocks)
       \<and> (if list_ex (\<lambda>ii. lcpStall (ii_instr ii)) queue
          then instructionQueue self' = instructionQueue self \<and> preDecQueue self' = queue
          else instructionQueue self'
                 = instructionQueue self @ map (\<lambda>i. i\<lparr>predecoded := Some clock\<rparr>) queue
               \<and> preDecQueue self' = [])"
proof -
  let ?q0 = "case partialInstrI self of None \<Rightarrow> [] | Some p \<Rightarrow> [p]"
  have q0: "(case partialInstrI self of None \<Rightarrow> preDecQueue self | Some p \<Rightarrow> preDecQueue self @ [p]) = ?q0"
    using assms(2) by (simp split: option.splits)
  have tp: "takePartial [instrI] queue = (if taken then ([], Some instrI) else ([instrI], None))"
    using assms(6) by (simp add: takePartial_def taken_def Let_def)
  define g where "g = newPreDecGroup cfg self"
  have g: "preDecQueue g = queue"
    "partialInstrI g = (if taken then Some instrI else None)"
    "B16BlockQueue g = (if taken then blocks else [instrI] # blocks)"
    "instructionQueue g = instructionQueue self"
    "pd_stalled g = (\<Sum>ii \<leftarrow> filter (\<lambda>ii. lcpStall (ii_instr ii)) queue. 3)"
    unfolding g_def newPreDecGroup_def q0 using assms(4,5) tp
    by (simp_all add: Let_def)
  have c: "PreDecoder_cycle cfg clock self =
      (let s3 = (if pd_stalled g = 0
                 then g\<lparr>instructionQueue := instructionQueue g
                          @ map (\<lambda>instrI. instrI\<lparr>predecoded := Some clock\<rparr>) (preDecQueue g),
                        preDecQueue := []\<rparr>
                 else g)
       in s3\<lparr>pd_stalled := max 0 (pd_stalled s3 - 1)\<rparr>)"
    using assms(1,2,3,4) by (simp add: PreDecoder_cycle_def g_def Let_def)
  show ?thesis
    unfolding self'_def c using g stall_sum [of queue]
    by (auto simp: Let_def)
qed


lemma ex_crosses:
  "instrInstanceCrosses16ByteBoundary (ex_instrI 10 ''48B80100000000000000'' 1)"
  "instrInstanceCrosses16ByteBoundary (ex_instrI 14 ''B801000000'' 0)"
  "\<not> instrInstanceCrosses16ByteBoundary (ex_instrI 0 ''89C8'' 0)"
  "\<not> instrInstanceCrosses16ByteBoundary (ex_instrI 2 ''89C8'' 0)"
  "\<not> instrInstanceCrosses16ByteBoundary (ex_instrI 4 ''89C8'' 0)"
  "\<not> instrInstanceCrosses16ByteBoundary (ex_instrI 6 ''89C8'' 0)"
  "\<not> instrInstanceCrosses16ByteBoundary (ex_instrI 8 ''89C8'' 0)"
  by (simp_all add: instrInstanceCrosses16ByteBoundary_def ex_instrI_def UnknownInstr_def)

lemma ex_fill:
  "fillPreDecQueue (preDecodeWidth ex_cfg) ex_block
     (case partialInstrI (ex_pd ex_block) of None \<Rightarrow> [] | Some p \<Rightarrow> [p])
   = ([ex_instrI 10 ''48B80100000000000000'' 1], take 5 ex_block)"
  by (simp add: ex_block_def ex_pd_def ex_cfg_def ex_crosses)

theorem boundary_instruction_witness:
  "pd_stalled (ex_pd ex_block) = 0 \<and> preDecQueue (ex_pd ex_block) = []
   \<and> int (length (instructionQueue (ex_pd ex_block))) + preDecodeWidth ex_cfg \<le> IQWidth ex_cfg
   \<and> B16BlockQueue (ex_pd ex_block) = ex_block # []
   \<and> fillPreDecQueue (preDecodeWidth ex_cfg) ex_block
        (case partialInstrI (ex_pd ex_block) of None \<Rightarrow> [] | Some p \<Rightarrow> [p])
       = ([ex_instrI 10 ''48B80100000000000000'' 1], take 5 ex_block)
   \<and> instrInstanceCrosses16ByteBoundary (ex_instrI 10 ''48B80100000000000000'' 1)
   \<and> partialInstrI (PreDecoder_cycle ex_cfg 3 (ex_pd ex_block)) = None
   \<and> B16BlockQueue (PreDecoder_cycle ex_cfg 3 (ex_pd ex_block))
       = [[ex_instrI 10 ''48B80100000000000000'' 1]]
   \<and> instructionQueue (PreDecoder_cycle ex_cfg 3 (ex_pd ex_block))
       = map (\<lambda>i. i\<lparr>predecoded := Some 3\<rparr>) (take 5 ex_block)"
proof -
  have h: "pd_stalled (ex_pd ex_block) = 0" "preDecQueue (ex_pd ex_block) = []"
    "int (length (instructionQueue (ex_pd ex_block))) + preDecodeWidth ex_cfg \<le> IQWidth ex_cfg"
    "B16BlockQueue (ex_pd ex_block) = ex_block # []"
    by (simp_all add: ex_pd_def ex_cfg_def)
  have t: "\<not> (int (length (take 5 ex_block)) < 5
      \<or> 16 \<le> address (ex_instrI 10 ''48B80100000000000000'' 1) mod 16
              + posNominalOpcode (ii_instr (ex_instrI 10 ''48B80100000000000000'' 1)))"
    by (simp add: ex_block_def ex_instrI_def UnknownInstr_def)
  have l: "\<not> list_ex (\<lambda>ii. lcpStall (ii_instr ii)) (take 5 ex_block)"
    by (simp add: ex_block_def ex_instrI_def UnknownInstr_def)
  have i: "instructionQueue (ex_pd ex_block) = []" by (simp add: ex_pd_def)
  from boundary_instruction [OF h ex_fill ex_crosses(1), of 3] t l i
  have "partialInstrI (PreDecoder_cycle ex_cfg 3 (ex_pd ex_block)) = None
      \<and> B16BlockQueue (PreDecoder_cycle ex_cfg 3 (ex_pd ex_block))
          = [[ex_instrI 10 ''48B80100000000000000'' 1]]
      \<and> instructionQueue (PreDecoder_cycle ex_cfg 3 (ex_pd ex_block))
          = map (\<lambda>i. i\<lparr>predecoded := Some 3\<rparr>) (take 5 ex_block)"
    by simp
  with h ex_fill ex_crosses(1) show ?thesis by simp
qed

text \<open>
  The claim as the specification words it fails: a block whose only instruction starts
  at offset 14, is 5 bytes long and has its nominal opcode at offset 14 (in the current
  block) is met with no instruction predecoded in the cycle. By the claim the
  instruction is not held and completes in this cycle; in the code nothing is
  predecoded in this cycle (the instruction queue and \<open>preDecQueue\<close> stay empty) and
  the instruction is kept as the partial instruction for the next cycle.
\<close>

theorem boundary_instruction_counterexample:
  "B16BlockQueue (ex_pd [ex_instrI 14 ''B801000000'' 0]) = [[ex_instrI 14 ''B801000000'' 0]]
   \<and> instrInstanceCrosses16ByteBoundary (ex_instrI 14 ''B801000000'' 0)
   \<and> address (ex_instrI 14 ''B801000000'' 0) mod 16
       + posNominalOpcode (ii_instr (ex_instrI 14 ''B801000000'' 0)) = 14
   \<and> instructionQueue (PreDecoder_cycle ex_cfg 3 (ex_pd [ex_instrI 14 ''B801000000'' 0])) = []
   \<and> preDecQueue (PreDecoder_cycle ex_cfg 3 (ex_pd [ex_instrI 14 ''B801000000'' 0])) = []
   \<and> partialInstrI (PreDecoder_cycle ex_cfg 3 (ex_pd [ex_instrI 14 ''B801000000'' 0]))
       = Some (ex_instrI 14 ''B801000000'' 0)"
proof -
  have a: "address (ex_instrI 14 ''B801000000'' 0) mod 16
       + posNominalOpcode (ii_instr (ex_instrI 14 ''B801000000'' 0)) = 14"
    by (simp add: ex_instrI_def UnknownInstr_def)
  have l: "\<not> lcpStall (ii_instr (ex_instrI 14 ''B801000000'' 0))"
    by (simp add: ex_instrI_def UnknownInstr_def)
  show ?thesis
    by (simp add: PreDecoder_cycle_def newPreDecGroup_def takePartial_def ex_pd_def ex_cfg_def
        ex_crosses a l Let_def)
qed

end
